theory Spec2Isabelle
  imports Complex_Main "HOL-Library.Word"
begin


section \<open>Python strings\<close>

text \<open>
  A Python \<^verbatim>\<open>str\<close> is a sequence of Unicode code points: \<^verbatim>\<open>len\<close>, slicing and
  \<^verbatim>\<open>in\<close> all count code points. It is modelled as a list of code points, so that the
  Latvian letters of the keyword tables are one element each. An ASCII literal is
  written \<open>u ''...''\<close>.
\<close>

type_synonym pystr = "nat list"

definition u :: "string \<Rightarrow> pystr" where
  "u s = map of_char s"

text \<open>
  The letters of the Latvian alphabet outside ASCII are the code points
  257 (a with macron), 269 (c with caron), 275 (e with macron), 291 (g with cedilla),
  299 (i with macron), 311 (k with cedilla), 316 (l with cedilla), 326 (n with cedilla),
  353 (s with caron), 363 (u with macron) and 382 (z with caron); each capital is the
  code point before its small letter. 169 is the copyright sign, 34 the double quote.
\<close>

text \<open>\<^verbatim>\<open>s.startswith(p)\<close>, and \<^verbatim>\<open>sub in s\<close> for strings.\<close>

fun startswith :: "pystr \<Rightarrow> pystr \<Rightarrow> bool" where
  "startswith s [] = True"
| "startswith [] (p # ps) = False"
| "startswith (c # cs) (p # ps) = (c = p \<and> startswith cs ps)"

fun py_in :: "pystr \<Rightarrow> pystr \<Rightarrow> bool" where
  "py_in sub [] = (sub = [])"
| "py_in sub (c # cs) = (startswith (c # cs) sub \<or> py_in sub cs)"

text \<open>
  \<^verbatim>\<open>str.isspace\<close> of one code point, which is also what \<^verbatim>\<open>\s\<close> matches in a
  \<^verbatim>\<open>str\<close> pattern and what \<^verbatim>\<open>str.strip()\<close> removes.
\<close>

definition isspace :: "nat \<Rightarrow> bool" where
  "isspace c = ((9 \<le> c \<and> c \<le> 13) \<or> (28 \<le> c \<and> c \<le> 32) \<or> c = 133 \<or> c = 160
     \<or> c = 5760 \<or> (8192 \<le> c \<and> c \<le> 8202) \<or> c = 8232 \<or> c = 8233 \<or> c = 8239
     \<or> c = 8287 \<or> c = 12288)"

definition py_strip :: "pystr \<Rightarrow> pystr" where
  "py_strip s = rev (dropWhile isspace (rev (dropWhile isspace s)))"

text \<open>
  \<^verbatim>\<open>\d\<close>: the ASCII digits. Python's \<^verbatim>\<open>\d\<close> also accepts the decimal digits of other
  scripts; the model reads text whose digits are ASCII.
\<close>

definition is_digit :: "nat \<Rightarrow> bool" where
  "is_digit c = (48 \<le> c \<and> c \<le> 57)"

text \<open>\<^verbatim>\<open>sep.join(xs)\<close> and \<^verbatim>\<open>s.split(d)\<close> for a one-character separator.\<close>

fun join :: "pystr \<Rightarrow> pystr list \<Rightarrow> pystr" where
  "join sep [] = []"
| "join sep [x] = x"
| "join sep (x # y # ys) = x @ sep @ join sep (y # ys)"

fun split_on :: "nat \<Rightarrow> pystr \<Rightarrow> pystr list" where
  "split_on d [] = [[]]"
| "split_on d (c # cs) =
     (if c = d then [] # split_on d cs
      else (case split_on d cs of [] \<Rightarrow> [[c]] | w # ws \<Rightarrow> (c # w) # ws))"

section \<open>Cabinet agenda: section assignment\<close>

text \<open>
  Step 3 of \<^verbatim>\<open>get_cabinet_cudars_items\<close> records every section heading as
  \<^verbatim>\<open>{"name": ..., "pos": m.start()}\<close>, step 4 every agenda item with the offset
  \<^verbatim>\<open>ta.start()\<close> of its link. Offsets are positions in the page, hence naturals. The
  keys \<^verbatim>\<open>section\<close>, \<^verbatim>\<open>essence\<close> and \<^verbatim>\<open>decision\<close>, which steps 5 and 7 add to an item,
  are fields that are empty until then.
\<close>

record agenda_section =
  sec_name :: pystr
  sec_pos :: nat

record agenda_item =
  pos :: nat
  ta_link :: pystr
  ta_id :: pystr
  title :: pystr
  reporter :: pystr
  item_section :: pystr
  essence :: pystr
  decision :: pystr

text \<open>
  Step 5:
  \<^verbatim>\<open>
  for item in items:
      item["section"] = "Unknown"
      for sec in reversed(sections):
          if item["pos"] > sec["pos"]:
              item["section"] = sec["name"]
              break
  \<close>
  \<open>scan_sections\<close> is the inner loop over the already reversed list: it stops at the
  first section whose offset the item's offset exceeds, and leaves the default when the
  list is exhausted.
\<close>

fun scan_sections :: "agenda_section list \<Rightarrow> nat \<Rightarrow> pystr" where
  "scan_sections [] p = u ''Unknown''"
| "scan_sections (sec # secs) p =
     (if p > sec_pos sec then sec_name sec else scan_sections secs p)"

definition assign_section :: "agenda_section list \<Rightarrow> agenda_item \<Rightarrow> agenda_item" where
  "assign_section sections item =
     item\<lparr>item_section := scan_sections (rev sections) (pos item)\<rparr>"

definition assign_sections :: "agenda_section list \<Rightarrow> agenda_item list \<Rightarrow> agenda_item list" where
  "assign_sections sections items = map (assign_section sections) items"

text \<open>The sections and items of the specification's example.\<close>

definition mk_section :: "string \<Rightarrow> nat \<Rightarrow> agenda_section" where
  "mk_section n p = \<lparr>sec_name = u n, sec_pos = p\<rparr>"

definition mk_item :: "nat \<Rightarrow> agenda_item" where
  "mk_item p = \<lparr>pos = p, ta_link = [], ta_id = [], title = [], reporter = [],
     item_section = [], essence = [], decision = []\<rparr>"

definition example_sections :: "agenda_section list" where
  "example_sections = [mk_section ''A'' 0, mk_section ''B'' 100, mk_section ''C'' 250]"

section \<open>Cabinet agenda: the decision text of a protocol decision\<close>

text \<open>
  Step 7 of \<^verbatim>\<open>get_cabinet_cudars_items\<close> turns the protocol decision's page into text,
  splits it into stripped non-empty lines
  (\<^verbatim>\<open>lines = [l.strip() for l in p_text.split('\n') if l.strip()]\<close>) and extracts the
  decision from the lines.
\<close>

definition nonempty_lines :: "pystr \<Rightarrow> pystr list" where
  "nonempty_lines p_text = map py_strip (filter (\<lambda>l. py_strip l \<noteq> []) (split_on 10 p_text))"

text \<open>
  The three patterns, each applied with \<^verbatim>\<open>re.match\<close>. In all of them the digits
  \<^verbatim>\<open>\d+\<close> are followed by a character that is not a digit, so only the whole leading
  run of digits can match.
  \<^item> \<^verbatim>\<open>^\d+-TA-\d+\<close>: digits, \<^verbatim>\<open>-TA-\<close>, a digit;
  \<^item> \<^verbatim>\<open>^\d+\.$\<close>: digits, a dot, the end of the string (\<^verbatim>\<open>$\<close> also matches before a
    final newline);
  \<^item> \<^verbatim>\<open>^\d+\.\s*$\<close>: digits, a dot, then white space only.
\<close>

definition is_ta_title :: "pystr \<Rightarrow> bool" where
  "is_ta_title line =
     (let rest = dropWhile is_digit line
      in takeWhile is_digit line \<noteq> [] \<and> startswith rest (u ''-TA-'')
         \<and> (case drop 4 rest of [] \<Rightarrow> False | c # _ \<Rightarrow> is_digit c))"

definition is_ordinal :: "pystr \<Rightarrow> bool" where
  "is_ordinal line =
     (let rest = dropWhile is_digit line
      in takeWhile is_digit line \<noteq> [] \<and> (rest = u ''.'' \<or> rest = u ''.'' @ [10]))"

definition is_ordinal_ws :: "pystr \<Rightarrow> bool" where
  "is_ordinal_ws line =
     (takeWhile is_digit line \<noteq> [] \<and>
      (case dropWhile is_digit line of [] \<Rightarrow> False | c # ws \<Rightarrow> c = 46 \<and> list_all isspace ws))"

text \<open>
  The footer test
  \<^verbatim>\<open>'(c) Valsts' in line or 'atbalsts@' in line or 'Versija' in line\<close>, where the source
  has the copyright sign for \<^verbatim>\<open>(c)\<close>.
\<close>

definition is_footer :: "pystr \<Rightarrow> bool" where
  "is_footer line = (py_in ([169] @ u '' Valsts'') line \<or> py_in (u ''atbalsts@'') line
     \<or> py_in (u ''Versija'') line)"

text \<open>
  The capture loop. The variable \<^verbatim>\<open>capture\<close> is \<^verbatim>\<open>False\<close>, \<^verbatim>\<open>"next"\<close> or \<^verbatim>\<open>True\<close>:
  \<^verbatim>\<open>
  decision_lines = []
  capture = False
  for line in lines:
      if re.match(r'^\d+-TA-\d+', line):
          capture = "next"
          continue
      if capture == "next" and not re.match(r'^\d+\.$', line):
          continue
      if capture == "next" and re.match(r'^\d+\.$', line):
          capture = True
      if capture is True:
          if '(c) Valsts' in line or 'atbalsts@' in line or 'Versija' in line:
              break
          decision_lines.append(line)
  \<close>
  \<open>capture_lines c lines\<close> is what the loop appends from \<open>lines\<close> on when it is entered
  with \<open>capture = c\<close>; \<^verbatim>\<open>break\<close> ends the list.
\<close>

datatype capture = Off | Next | On

fun capture_lines :: "capture \<Rightarrow> pystr list \<Rightarrow> pystr list" where
  "capture_lines c [] = []"
| "capture_lines c (line # lines) =
     (if is_ta_title line then capture_lines Next lines
      else if c = Next \<and> \<not> is_ordinal line then capture_lines c lines
      else
        (let c' = (if c = Next \<and> is_ordinal line then On else c)
         in if c' = On
            then (if is_footer line then [] else line # capture_lines c' lines)
            else capture_lines c' lines))"

text \<open>
  The merge loop, whose comment reads \<^verbatim>\<open># Join numbered items: "1." + "Text" -> "1. Text"\<close>:
  \<^verbatim>\<open>
  merged = []
  for dl in decision_lines:
      if re.match(r'^\d+\.$', dl) and merged:
          merged.append(dl + " ")
      elif merged and re.match(r'^\d+\.\s*$', merged[-1]):
          merged[-1] = merged[-1] + dl
      else:
          merged.append(dl)
  item["decision"] = " ".join(merged).strip()[:600] if merged else ""
  \<close>
\<close>

definition merge_step :: "pystr list \<Rightarrow> pystr \<Rightarrow> pystr list" where
  "merge_step merged dl =
     (if is_ordinal dl \<and> merged \<noteq> [] then merged @ [dl @ u '' '']
      else if merged \<noteq> [] \<and> is_ordinal_ws (last merged)
      then butlast merged @ [last merged @ dl]
      else merged @ [dl])"

definition merge_lines :: "pystr list \<Rightarrow> pystr list" where
  "merge_lines decision_lines = foldl merge_step [] decision_lines"

definition extract_decision :: "pystr list \<Rightarrow> pystr" where
  "extract_decision lines =
     (let merged = merge_lines (capture_lines Off lines)
      in if merged \<noteq> [] then take 600 (py_strip (join (u '' '') merged)) else [])"

text \<open>The document of the specification's example, as lines and as one text.\<close>

definition example_lines :: "pystr list" where
  "example_lines = [u ''12-TA-345 Some Title'', u ''irrelevant'', u ''1.'', u ''First clause.'',
     u ''2.'', u ''Second clause.'', [169] @ u '' Valsts ...'']"

definition example_text :: pystr where
  "example_text = join [10] example_lines"

section \<open>Parliament agenda: classification of agenda points\<close>

text \<open>
  \<^verbatim>\<open>str.lower()\<close>, one code point at a time. The function is Python's for every code
  point below 384 (ASCII, Latin-1 and Latin Extended-A, which hold the Latvian
  alphabet): capital I with dot above (304) becomes \<open>i\<close> followed by a combining dot (775),
  capital Y with diaeresis (376) becomes 255, the capitals of 256 to 311 and of 330 to 375
  are the even code points, those of 313 to 328 and 377 to 382 the odd ones. Code points
  from 384 on are returned unchanged; the tables of the source and the texts of the
  theorems below lie under that bound.
\<close>

definition lower_cp :: "nat \<Rightarrow> pystr" where
  "lower_cp c =
     (if 65 \<le> c \<and> c \<le> 90 then [c + 32]
      else if 192 \<le> c \<and> c \<le> 222 \<and> c \<noteq> 215 then [c + 32]
      else if c = 304 then [105, 775]
      else if c = 376 then [255]
      else if ((256 \<le> c \<and> c \<le> 311) \<or> (330 \<le> c \<and> c \<le> 375)) \<and> even c then [c + 1]
      else if ((313 \<le> c \<and> c \<le> 328) \<or> (377 \<le> c \<and> c \<le> 382)) \<and> odd c then [c + 1]
      else [c])"

definition py_lower :: "pystr \<Rightarrow> pystr" where
  "py_lower s = concat (map lower_cp s)"

text \<open>
  The two tables of the source:
  \<^verbatim>\<open>VARAM_KEYWORDS\<close>, the ministry's name stem and its acronym \<^verbatim>\<open>varam\<close>, and
  \<^verbatim>\<open>DIGITAL_TOPICS\<close>, the 26 stems of digital-government topics, in the source's order.
\<close>

definition VARAM_KEYWORDS :: "pystr list" where
  "VARAM_KEYWORDS =
     [u ''vied'' @ [257] @ u ''s administr'' @ [257] @ u ''cijas un re'' @ [291] @ u ''ion''
        @ [257] @ u ''l'' @ [257] @ u ''s att'' @ [299] @ u ''st'' @ [299] @ u ''bas ministrij'',
      u ''varam'']"

definition DIGITAL_TOPICS :: "pystr list" where
  "DIGITAL_TOPICS =
     [u ''digit'' @ [257] @ u ''l'',
      u ''e-p'' @ [257] @ u ''rvald'',
      u ''e-pakalpojum'',
      u ''datu p'' @ [257] @ u ''rvald'' @ [299] @ u ''b'',
      u ''inform'' @ [257] @ u ''cijas sist'' @ [275] @ u ''m'',
      u ''inform'' @ [257] @ u ''cijas tehnolo'' @ [291] @ u ''ij'',
      u ''kiberdro'' @ [353, 299] @ u ''b'',
      u ''elektronisk'',
      u ''atv'' @ [275] @ u ''rt'',
      u ''dati'',
      u ''digitaliz'' @ [257] @ u ''c'',
      u ''m'' @ [257] @ u ''ksl'' @ [299] @ u ''g'',
      u ''intelekt'',
      u ''platforma'',
      u ''port'' @ [257] @ u ''l'',
      u ''IKT'',
      u ''IT dro'' @ [353, 299] @ u ''b'',
      u ''inform'' @ [257] @ u ''cijas sabiedr'' @ [299] @ u ''b'',
      u ''tehnolo'' @ [291] @ u ''iju att'' @ [299] @ u ''st'' @ [299] @ u ''b'',
      u ''inov'' @ [257] @ u ''ci'',
      u ''e-identit'',
      u ''interoperabilit'',
      u ''re'' @ [291] @ u ''istr'',
      u ''datu apstr'' @ [257] @ u ''d'',
      u ''datu aizsardz'' @ [299] @ u ''b'',
      u ''priv'' @ [257] @ u ''tum'']"

text \<open>
  The item a relevant point yields, and the sitting it belongs to (the values the
  enclosing loops of \<^verbatim>\<open>get_parliament_agenda\<close> hold when a point is classified).
\<close>

datatype match_type = Keyword | Content

record sitting =
  day_label :: pystr
  time_str :: pystr
  sitting_title :: pystr
  sitting_url :: pystr

record parliament_item =
  p_date :: pystr
  p_time :: pystr
  commission :: pystr
  p_point :: pystr
  p_link :: pystr
  p_match_type :: match_type

text \<open>
  The body of the loop over the points:
  \<^verbatim>\<open>
  point_lower = point.lower()
  is_keyword = any(kw in point_lower for kw in VARAM_KEYWORDS)
  matches = sum(1 for dt in DIGITAL_TOPICS if dt.lower() in point_lower)
  is_digital = matches >= 2
  if is_keyword or is_digital:
      display = point[:300] + ("..." if len(point) > 300 else "")
      results.append({..., "point": display, ...,
                      "match_type": "content" if is_digital else "keyword"})
  \<close>
  whose comment on the keyword test reads
  \<^verbatim>\<open># Check VARAM keyword match (takes priority)\<close>.
  \<open>classify_point\<close> returns the item appended, or \<open>None\<close> when the point is dropped.
\<close>

definition is_keyword :: "pystr \<Rightarrow> bool" where
  "is_keyword point = list_ex (\<lambda>kw. py_in kw (py_lower point)) VARAM_KEYWORDS"

definition matches :: "pystr \<Rightarrow> nat" where
  "matches point = length (filter (\<lambda>dt. py_in (py_lower dt) (py_lower point)) DIGITAL_TOPICS)"

definition is_digital :: "pystr \<Rightarrow> bool" where
  "is_digital point = (matches point \<ge> 2)"

definition display :: "pystr \<Rightarrow> pystr" where
  "display point = take 300 point @ (if length point > 300 then u ''...'' else [])"

definition classify_point :: "sitting \<Rightarrow> pystr \<Rightarrow> parliament_item option" where
  "classify_point s point =
     (if is_keyword point \<or> is_digital point
      then Some \<lparr>p_date = day_label s, p_time = time_str s, commission = sitting_title s,
                 p_point = display point, p_link = sitting_url s,
                 p_match_type = (if is_digital point then Content else Keyword)\<rparr>
      else None)"

definition classify_points :: "sitting \<Rightarrow> pystr list \<Rightarrow> parliament_item list" where
  "classify_points s points = List.map_filter (classify_point s) points"

text \<open>
  Four agenda points: one naming the ministry's acronym and two topics, one naming the
  acronym alone, one with two topics and one with a single topic.
\<close>

definition point_varam_digital :: pystr where
  "point_varam_digital = u ''VARAM digit'' @ [257] @ u ''l'' @ [257] @ u '' platforma''"

definition point_varam :: pystr where
  "point_varam = u ''1. VARAM zi'' @ [326] @ u ''ojums''"

definition point_two_topics :: pystr where
  "point_two_topics = u ''2. Digit'' @ [257] @ u ''l'' @ [257] @ u '' platforma''"

definition point_one_topic :: pystr where
  "point_one_topic = u ''3. Jauna platforma''"

definition example_sitting :: sitting where
  "example_sitting = \<lparr>day_label = u ''Monday, 09.11.'', time_str = u ''10:00'',
     sitting_title = u ''Komisija'', sitting_url = u ''https://titania.saeima.lv/x''\<rparr>"

section \<open>Python values: exceptions, numbers, dates\<close>

text \<open>
  The exceptions the modelled code can raise. A computation that may raise returns
  \<open>exn + 'a\<close>, with \<open>Inl\<close> for the exception; \<open>NetworkError\<close> stands for whatever
  \<^verbatim>\<open>requests.get\<close> or the decoding of its answer raises.
\<close>

datatype exn = ValueError | KeyError | TypeError | ZeroDivisionError | OverflowError
  | NetworkError

definition exn_bind :: "exn + 'a \<Rightarrow> ('a \<Rightarrow> exn + 'b) \<Rightarrow> exn + 'b" where
  "exn_bind m f = (case m of Inl e \<Rightarrow> Inl e | Inr x \<Rightarrow> f x)"

text \<open>
  Python's \<^verbatim>\<open>float\<close>s are idealised as exact rationals: \<^verbatim>\<open>a / b\<close> on integers is the
  exact quotient and raises \<^verbatim>\<open>ZeroDivisionError\<close> for a zero divisor, \<^verbatim>\<open>round\<close> rounds to
  the nearest integer and a tie to the even neighbour. The rounding errors of binary
  floating point, and the overflow of a quotient beyond the range of a \<^verbatim>\<open>float\<close>, are not
  modelled.
\<close>

definition truediv :: "int \<Rightarrow> int \<Rightarrow> exn + rat" where
  "truediv a b = (if b = 0 then Inl ZeroDivisionError else Inr (of_int a / of_int b))"

definition py_round :: "rat \<Rightarrow> int" where
  "py_round x =
     (let f = \<lfloor>x\<rfloor>; d = x - of_int f
      in if d < 1 / 2 then f else if 1 / 2 < d then f + 1 else if even f then f else f + 1)"

text \<open>\<^verbatim>\<open>x or d\<close> on integers: \<open>d\<close> when \<open>x\<close> is zero.\<close>

definition py_or :: "int \<Rightarrow> int \<Rightarrow> int" where
  "py_or x d = (if x = 0 then d else x)"

text \<open>
  A naive \<^verbatim>\<open>datetime\<close> is modelled by its day number (\<^verbatim>\<open>toordinal()\<close>, day 1 being
  1 January of year 1) and the microsecond of the day. Comparison, the \<^verbatim>\<open>days\<close> of a
  difference and the subtraction of a \<^verbatim>\<open>timedelta(days=k)\<close> are arithmetic on these;
  a result before day 1 raises \<^verbatim>\<open>OverflowError\<close>.
\<close>

record datetime =
  ordinal :: int
  usec :: int

definition day_usec :: int where
  "day_usec = 86400000000"

definition to_usec :: "datetime \<Rightarrow> int" where
  "to_usec t = ordinal t * day_usec + usec t"

definition dt_ge :: "datetime \<Rightarrow> datetime \<Rightarrow> bool" where
  "dt_ge a b = (to_usec a \<ge> to_usec b)"

definition td_days :: "datetime \<Rightarrow> datetime \<Rightarrow> int" where
  "td_days a b = (to_usec a - to_usec b) div day_usec"

definition minus_days :: "datetime \<Rightarrow> int \<Rightarrow> exn + datetime" where
  "minus_days t k = (if ordinal t - k < 1 then Inl OverflowError
     else Inr (t\<lparr>ordinal := ordinal t - k\<rparr>))"

definition midnight :: "datetime \<Rightarrow> datetime" where
  "midnight t = t\<lparr>usec := 0\<rparr>"

text \<open>The proleptic Gregorian calendar: the day number of a year, month and day.\<close>

definition is_leap :: "int \<Rightarrow> bool" where
  "is_leap y = (y mod 4 = 0 \<and> (y mod 100 \<noteq> 0 \<or> y mod 400 = 0))"

definition days_in_month :: "int \<Rightarrow> int \<Rightarrow> int" where
  "days_in_month y m =
     (if m = 2 then (if is_leap y then 29 else 28)
      else if m = 4 \<or> m = 6 \<or> m = 9 \<or> m = 11 then 30 else 31)"

definition days_before_year :: "int \<Rightarrow> int" where
  "days_before_year y = (y - 1) * 365 + (y - 1) div 4 - (y - 1) div 100 + (y - 1) div 400"

definition days_before_month :: "int \<Rightarrow> int \<Rightarrow> int" where
  "days_before_month y m = sum_list (map (days_in_month y) [1 .. m - 1])"

definition ymd2ord :: "int \<Rightarrow> int \<Rightarrow> int \<Rightarrow> int" where
  "ymd2ord y m d = days_before_year y + days_before_month y m + d"

text \<open>
  \<^verbatim>\<open>datetime.strptime(s, "%Y-%m-%d")\<close>, with \<open>None\<close> for \<^verbatim>\<open>ValueError\<close>. The format is
  matched as the pattern
  \<^verbatim>\<open>(\d\d\d\d)-(1[0-2]|0[1-9]|[1-9])-(3[01]|[12]\d|0[1-9]|[1-9]| [1-9])\<close>, nothing may follow
  the day, and the date must exist (year 0 does not, nor does 30 February).
\<close>

definition digit_val :: "nat \<Rightarrow> int" where
  "digit_val c = int c - 48"

definition parse_month :: "pystr \<Rightarrow> (int \<times> pystr) option" where
  "parse_month s =
     (case s of
        m1 # m2 # c # rest \<Rightarrow>
          if ((m1 = 49 \<and> 48 \<le> m2 \<and> m2 \<le> 50) \<or> (m1 = 48 \<and> 49 \<le> m2 \<and> m2 \<le> 57)) \<and> c = 45
          then Some (10 * digit_val m1 + digit_val m2, rest)
          else if 49 \<le> m1 \<and> m1 \<le> 57 \<and> m2 = 45 then Some (digit_val m1, c # rest)
          else None
      | [m1, m2] \<Rightarrow> if 49 \<le> m1 \<and> m1 \<le> 57 \<and> m2 = 45 then Some (digit_val m1, []) else None
      | _ \<Rightarrow> None)"

definition parse_day :: "pystr \<Rightarrow> int option" where
  "parse_day s =
     (case s of
        [d1, d2] \<Rightarrow>
          if (d1 = 51 \<and> (d2 = 48 \<or> d2 = 49)) \<or> ((d1 = 49 \<or> d1 = 50) \<and> is_digit d2)
             \<or> (d1 = 48 \<and> 49 \<le> d2 \<and> d2 \<le> 57)
          then Some (10 * digit_val d1 + digit_val d2)
          else if d1 = 32 \<and> 49 \<le> d2 \<and> d2 \<le> 57 then Some (digit_val d2)
          else None
      | [d1] \<Rightarrow> if 49 \<le> d1 \<and> d1 \<le> 57 then Some (digit_val d1) else None
      | _ \<Rightarrow> None)"

definition strptime_ymd :: "pystr \<Rightarrow> datetime option" where
  "strptime_ymd s =
     (case s of
        y1 # y2 # y3 # y4 # c # rest \<Rightarrow>
          if is_digit y1 \<and> is_digit y2 \<and> is_digit y3 \<and> is_digit y4 \<and> c = 45
          then (case parse_month rest of
                  None \<Rightarrow> None
                | Some (m, rest') \<Rightarrow>
                    (case parse_day rest' of
                       None \<Rightarrow> None
                     | Some d \<Rightarrow>
                         (let y = 1000 * digit_val y1 + 100 * digit_val y2 + 10 * digit_val y3
                                    + digit_val y4
                          in if 1 \<le> y \<and> d \<le> days_in_month y m
                             then Some \<lparr>ordinal = ymd2ord y m d, usec = 0\<rparr>
                             else None)))
          else None
      | _ \<Rightarrow> None)"

text \<open>
  \<^verbatim>\<open>int(s)\<close> for a string, with \<open>None\<close> for \<^verbatim>\<open>ValueError\<close>: white space around, an optional
  sign, then ASCII digits, where single underscores may stand between digits. The bound
  that recent interpreters put on the number of digits (4300) is left out.
\<close>

fun digits_ok :: "pystr \<Rightarrow> bool" where
  "digits_ok [] = False"
| "digits_ok [c] = is_digit c"
| "digits_ok (c # d # cs) =
     (if is_digit c then digits_ok (d # cs) else c = 95 \<and> is_digit d \<and> digits_ok (d # cs))"

definition digits_int :: "pystr \<Rightarrow> int" where
  "digits_int s = foldl (\<lambda>a c. 10 * a + digit_val c) 0 (filter is_digit s)"

definition int_of_str :: "pystr \<Rightarrow> int option" where
  "int_of_str s =
     (case py_strip s of
        [] \<Rightarrow> None
      | c # cs \<Rightarrow>
          if c = 45 then (if cs \<noteq> [] \<and> is_digit (hd cs) \<and> digits_ok cs
                          then Some (- digits_int cs) else None)
          else if c = 43 then (if cs \<noteq> [] \<and> is_digit (hd cs) \<and> digits_ok cs
                               then Some (digits_int cs) else None)
          else if is_digit c \<and> digits_ok (c # cs) then Some (digits_int (c # cs)) else None)"

text \<open>
  \<^verbatim>\<open>int(s, 16)\<close> for a string of hexadecimal digits, with \<open>None\<close> for any other string,
  and the \<^verbatim>\<open>hexdigest()\<close> of a 128-bit digest: its 32 hexadecimal digits in lower case,
  the most significant first.
\<close>

definition hex_val :: "nat \<Rightarrow> int option" where
  "hex_val c =
     (if 48 \<le> c \<and> c \<le> 57 then Some (int c - 48)
      else if 97 \<le> c \<and> c \<le> 102 then Some (int c - 87)
      else if 65 \<le> c \<and> c \<le> 70 then Some (int c - 55)
      else None)"

fun int_base16_from :: "int \<Rightarrow> pystr \<Rightarrow> int option" where
  "int_base16_from a [] = Some a"
| "int_base16_from a (c # cs) =
     (case hex_val c of None \<Rightarrow> None | Some v \<Rightarrow> int_base16_from (16 * a + v) cs)"

definition int_base16 :: "pystr \<Rightarrow> int option" where
  "int_base16 s = (if s = [] then None else int_base16_from 0 s)"

definition hex_char :: "nat \<Rightarrow> nat" where
  "hex_char n = (if n < 10 then 48 + n else 87 + n)"

definition hexdigest :: "128 word \<Rightarrow> pystr" where
  "hexdigest w = map (\<lambda>i. hex_char (unat (take_bit 4 (drop_bit (4 * (31 - i)) w)))) [0 ..< 32]"

section \<open>E-address statistics: records, daily rates, streak\<close>

text \<open>
  The functions of the standard library whose result the model does not compute are
  taken as given: the formatting of a date (\<^verbatim>\<open>isoformat()\<close> and \<^verbatim>\<open>strftime\<close> with the
  formats \<^verbatim>\<open>%a\<close> and \<^verbatim>\<open>%b %Y\<close>, which depends on the locale) and the MD5 digest of the
  UTF-8 encoding of a string (\<^verbatim>\<open>hashlib.md5(s.encode())\<close>), a 128-bit value.
\<close>

record pylib =
  isoformat :: "datetime \<Rightarrow> pystr"
  strftime_a :: "datetime \<Rightarrow> pystr"
  strftime_b_Y :: "datetime \<Rightarrow> pystr"
  md5 :: "pystr \<Rightarrow> 128 word"

text \<open>
  A daily rate is \<^verbatim>\<open>{"date", "fiziska", "juridiska"}\<close>; a monthly record has the label of
  its month as well.
\<close>

record daily_rate =
  date :: datetime
  fiziska :: int
  juridiska :: int

record monthly_record = daily_rate +
  label :: pystr

subsection \<open>The parser of a statistics resource\<close>

text \<open>
  A row of the answer is a JSON object whose values are JSON scalars: \<^verbatim>\<open>null\<close>, a truth
  value, a number or a string. \<^verbatim>\<open>int\<close> of a scalar truncates a number, reads a string
  and raises \<^verbatim>\<open>TypeError\<close> for \<^verbatim>\<open>None\<close>.
\<close>

datatype json = JNull | JBool bool | JInt int | JFloat rat | JStr pystr

type_synonym row = "pystr \<rightharpoonup> json"

definition py_int :: "json \<Rightarrow> exn + int" where
  "py_int v =
     (case v of
        JNull \<Rightarrow> Inl TypeError
      | JBool b \<Rightarrow> Inr (if b then 1 else 0)
      | JInt i \<Rightarrow> Inr i
      | JFloat q \<Rightarrow> Inr (if q < 0 then \<lceil>q\<rceil> else \<lfloor>q\<rfloor>)
      | JStr s \<Rightarrow> (case int_of_str s of None \<Rightarrow> Inl ValueError | Some i \<Rightarrow> Inr i))"

definition DATUMS :: pystr where
  "DATUMS = u ''DATUMS''"

definition FIZISKA_PERSONA :: pystr where
  "FIZISKA_PERSONA = u ''FIZISKA PERSONA''"

definition REGISTROS_REGISTRETS :: pystr where
  "REGISTROS_REGISTRETS = u ''RE'' @ [290] @ u ''ISTROS RE'' @ [290] @ u ''ISTR'' @ [274]
     @ u ''TS TIES'' @ [298] @ u ''BU SUBJEKTS''"

text \<open>
  The body of the \<^verbatim>\<open>try\<close> of \<^verbatim>\<open>_fetch_eaddress_resource\<close>:
  \<^verbatim>\<open>
  date = datetime.strptime(r["DATUMS"][:10], "%Y-%m-%d")
  records.append({"date": date, "label": date.strftime("%b %Y"),
                  "fiziska": int(r.get("FIZISKA PERSONA", 0)),
                  "juridiska": int(r.get(<the registered subjects' column>, 0))})
  \<close>
  A missing \<^verbatim>\<open>DATUMS\<close> raises \<^verbatim>\<open>KeyError\<close>; a value that is not a string cannot be sliced
  and raises \<^verbatim>\<open>TypeError\<close>.
\<close>

definition parse_row :: "pylib \<Rightarrow> row \<Rightarrow> exn + monthly_record" where
  "parse_row lib r =
     (case r DATUMS of
        None \<Rightarrow> Inl KeyError
      | Some (JStr s) \<Rightarrow>
          (case strptime_ymd (take 10 s) of
             None \<Rightarrow> Inl ValueError
           | Some d \<Rightarrow>
               exn_bind (py_int (case r FIZISKA_PERSONA of None \<Rightarrow> JInt 0 | Some v \<Rightarrow> v)) (\<lambda>f.
               exn_bind (py_int (case r REGISTROS_REGISTRETS of None \<Rightarrow> JInt 0 | Some v \<Rightarrow> v)) (\<lambda>j.
               Inr \<lparr>date = d, fiziska = f, juridiska = j, label = strftime_b_Y lib d\<rparr>)))
      | Some _ \<Rightarrow> Inl TypeError)"

text \<open>
  The loop: \<^verbatim>\<open>except (ValueError, KeyError): continue\<close> skips the row, any other exception
  leaves the function.
\<close>

fun parse_rows :: "pylib \<Rightarrow> row list \<Rightarrow> exn + monthly_record list" where
  "parse_rows lib [] = Inr []"
| "parse_rows lib (r # rs) =
     (case parse_row lib r of
        Inr record \<Rightarrow> exn_bind (parse_rows lib rs) (\<lambda>records. Inr (record # records))
      | Inl e \<Rightarrow> if e = ValueError \<or> e = KeyError then parse_rows lib rs else Inl e)"

text \<open>What the loop keeps of a row: the record parsed, when the parse raises nothing.\<close>

definition parsed :: "pylib \<Rightarrow> row \<Rightarrow> monthly_record option" where
  "parsed lib r = (case parse_row lib r of Inl e \<Rightarrow> None | Inr record \<Rightarrow> Some record)"

text \<open>
  \<open>response\<close> is the outcome of the request, of decoding its answer and of reading
  \<^verbatim>\<open>data["result"]["records"]\<close>: the rows, or the exception raised on the way.
\<close>

definition fetch_eaddress_resource :: "pylib \<Rightarrow> exn + row list \<Rightarrow> exn + monthly_record list" where
  "fetch_eaddress_resource lib response = exn_bind response (parse_rows lib)"

text \<open>
  Two rows of an answer: a well-formed one, and one whose date cell is \<^verbatim>\<open>null\<close>, as the
  portal returns an empty cell.
\<close>

definition row_good :: row where
  "row_good = map_of [(DATUMS, JStr (u ''2024-01-01T00:00:00'')), (FIZISKA_PERSONA, JInt 100),
     (REGISTROS_REGISTRETS, JInt 50)]"

definition row_null_date :: row where
  "row_null_date = map_of [(DATUMS, JNull), (FIZISKA_PERSONA, JInt 410),
     (REGISTROS_REGISTRETS, JInt 60)]"

subsection \<open>Daily rates\<close>

text \<open>
  \<^verbatim>\<open>_build_daily_rates\<close>, for every adjacent pair of records:
  \<^verbatim>\<open>
  days_diff = (curr_r["date"] - prev_r["date"]).days or 1
  daily_rates.append({"date": curr_r["date"],
      "fiziska": round((curr_r["fiziska"] - prev_r["fiziska"]) / days_diff),
      "juridiska": round((curr_r["juridiska"] - prev_r["juridiska"]) / days_diff)})
  \<close>
\<close>

definition days_diff :: "monthly_record \<Rightarrow> monthly_record \<Rightarrow> int" where
  "days_diff prev_r curr_r = py_or (td_days (date curr_r) (date prev_r)) 1"

definition rate_of :: "datetime \<Rightarrow> int \<Rightarrow> int \<Rightarrow> int \<Rightarrow> exn + daily_rate" where
  "rate_of d f j days =
     exn_bind (truediv f days) (\<lambda>qf.
     exn_bind (truediv j days) (\<lambda>qj.
     Inr \<lparr>date = d, fiziska = py_round qf, juridiska = py_round qj\<rparr>))"

fun build_daily_rates :: "monthly_record list \<Rightarrow> exn + daily_rate list" where
  "build_daily_rates (prev_r # curr_r # rest) =
     exn_bind (rate_of (date curr_r) (fiziska curr_r - fiziska prev_r)
                 (juridiska curr_r - juridiska prev_r) (days_diff prev_r curr_r)) (\<lambda>rate.
     exn_bind (build_daily_rates (curr_r # rest)) (\<lambda>rates. Inr (rate # rates)))"
| "build_daily_rates _ = Inr []"

text \<open>
  The deactivation rates of \<^verbatim>\<open>get_eaddress_data\<close>, for every record:
  \<^verbatim>\<open>
  if i + 1 < len(deact_records):
      days_in_month = (deact_records[i + 1]["date"] - r["date"]).days or 30
  else:
      days_in_month = 30
  deact_rates.append({"date": r["date"],
      "fiziska": round(r["fiziska"] / days_in_month),
      "juridiska": round(r["juridiska"] / days_in_month)})
  \<close>
\<close>

definition days_in_period :: "monthly_record \<Rightarrow> monthly_record list \<Rightarrow> int" where
  "days_in_period r rest =
     (case rest of [] \<Rightarrow> 30 | next_r # _ \<Rightarrow> py_or (td_days (date next_r) (date r)) 30)"

fun build_deact_rates :: "monthly_record list \<Rightarrow> exn + daily_rate list" where
  "build_deact_rates [] = Inr []"
| "build_deact_rates (r # rest) =
     exn_bind (rate_of (date r) (fiziska r) (juridiska r) (days_in_period r rest)) (\<lambda>rate.
     exn_bind (build_deact_rates rest) (\<lambda>rates. Inr (rate # rates)))"



subsection \<open>The rate of a day, and its daily variation\<close>

text \<open>
  \<^verbatim>\<open>
  def _find_rate(rates, day):
      base_fiz = rates[-1]["fiziska"] if rates else 0
      base_jur = rates[-1]["juridiska"] if rates else 0
      for dr in reversed(rates):
          if day >= dr["date"]:
              base_fiz = dr["fiziska"]
              base_jur = dr["juridiska"]
              break
      return base_fiz, base_jur
  \<close>
  \<open>find_rate_scan\<close> is the loop over the reversed list, started with the two defaults.
\<close>

fun find_rate_scan :: "daily_rate list \<Rightarrow> datetime \<Rightarrow> int \<times> int \<Rightarrow> int \<times> int" where
  "find_rate_scan [] day base = base"
| "find_rate_scan (dr # drs) day base =
     (if dt_ge day (date dr) then (fiziska dr, juridiska dr) else find_rate_scan drs day base)"

definition find_rate :: "daily_rate list \<Rightarrow> datetime \<Rightarrow> int \<times> int" where
  "find_rate rates day =
     find_rate_scan (rev rates) day
       (if rates \<noteq> [] then fiziska (last rates) else 0,
        if rates \<noteq> [] then juridiska (last rates) else 0)"

text \<open>
  Rates sorted ascending by date, and three rates of days 10, 20 and 30.
\<close>

definition sorted_by_date :: "daily_rate list \<Rightarrow> bool" where
  "sorted_by_date rates = sorted (map (\<lambda>r. to_usec (date r)) rates)"

definition rate_on :: "int \<Rightarrow> int \<Rightarrow> int \<Rightarrow> daily_rate" where
  "rate_on day f j = \<lparr>date = \<lparr>ordinal = day, usec = 0\<rparr>, fiziska = f, juridiska = j\<rparr>"

definition example_rates :: "daily_rate list" where
  "example_rates = [rate_on 10 1 11, rate_on 20 2 12, rate_on 30 3 13]"

text \<open>
  \<^verbatim>\<open>
  def vary(avg, day, category):
      seed = hashlib.md5(f"{day.isoformat()}-{category}".encode()).hexdigest()
      frac = int(seed[:8], 16) / 0xFFFFFFFF
      offset = (frac - 0.5) * 0.4
      return max(0, round(avg * (1 + offset)))
  \<close>
\<close>

definition seed :: "pylib \<Rightarrow> datetime \<Rightarrow> pystr \<Rightarrow> pystr" where
  "seed lib day category = hexdigest (md5 lib (isoformat lib day @ u ''-'' @ category))"

definition frac :: "pystr \<Rightarrow> exn + rat" where
  "frac sd =
     (case int_base16 (take 8 sd) of
        None \<Rightarrow> Inl ValueError
      | Some n \<Rightarrow> truediv n 0xFFFFFFFF)"

definition offset :: "rat \<Rightarrow> rat" where
  "offset fr = (fr - 1 / 2) * (2 / 5)"

definition vary :: "pylib \<Rightarrow> int \<Rightarrow> datetime \<Rightarrow> pystr \<Rightarrow> exn + int" where
  "vary lib avg day category =
     exn_bind (frac (seed lib day category)) (\<lambda>fr.
     Inr (max 0 (py_round (of_int avg * (1 + offset fr)))))"

subsection \<open>The streak of seven days\<close>

record streak_day =
  weekday :: pystr
  activated :: int
  deactivated :: int
  net :: int

text \<open>
  The body of the loop \<^verbatim>\<open>for days_ago in range(7, 0, -1)\<close>: the day, its two rates, the
  four varied values and the two entries appended, for natural persons and for legal
  entities.
\<close>

definition streak_entry ::
  "pylib \<Rightarrow> daily_rate list \<Rightarrow> daily_rate list \<Rightarrow> datetime \<Rightarrow> int \<Rightarrow> exn + streak_day \<times> streak_day" where
  "streak_entry lib act_rates deact_rates today days_ago =
     exn_bind (minus_days today days_ago) (\<lambda>day.
     (let (act_fiz, act_jur) = find_rate act_rates day;
          (deact_fiz, deact_jur) = find_rate deact_rates day
      in exn_bind (vary lib act_fiz day (u ''fiz'')) (\<lambda>a_fiz.
         exn_bind (vary lib act_jur day (u ''jur'')) (\<lambda>a_jur.
         exn_bind (vary lib deact_fiz day (u ''deact_fiz'')) (\<lambda>d_fiz.
         exn_bind (vary lib deact_jur day (u ''deact_jur'')) (\<lambda>d_jur.
         Inr (\<lparr>weekday = strftime_a lib day, activated = a_fiz, deactivated = d_fiz,
                net = a_fiz - d_fiz\<rparr>,
              \<lparr>weekday = strftime_a lib day, activated = a_jur, deactivated = d_jur,
                net = a_jur - d_jur\<rparr>)))))))"

fun streak_loop ::
  "pylib \<Rightarrow> daily_rate list \<Rightarrow> daily_rate list \<Rightarrow> datetime \<Rightarrow> int list
     \<Rightarrow> exn + streak_day list \<times> streak_day list" where
  "streak_loop lib act_rates deact_rates today [] = Inr ([], [])"
| "streak_loop lib act_rates deact_rates today (days_ago # later) =
     exn_bind (streak_entry lib act_rates deact_rates today days_ago) (\<lambda>(e_fiz, e_jur).
     exn_bind (streak_loop lib act_rates deact_rates today later) (\<lambda>(s_fiz, s_jur).
     Inr (e_fiz # s_fiz, e_jur # s_jur)))"

definition streak ::
  "pylib \<Rightarrow> daily_rate list \<Rightarrow> daily_rate list \<Rightarrow> datetime
     \<Rightarrow> exn + streak_day list \<times> streak_day list" where
  "streak lib act_rates deact_rates now =
     streak_loop lib act_rates deact_rates (midnight now) [7, 6, 5, 4, 3, 2, 1]"

subsection \<open>The whole of the synthesizer\<close>

record eaddress_data =
  records :: "monthly_record list"
  yesterday_fiziska :: streak_day
  yesterday_juridiska :: streak_day
  streak_fiziska :: "streak_day list"
  streak_juridiska :: "streak_day list"

text \<open>
  \<^verbatim>\<open>get_eaddress_data\<close> reads the clock twice, for the cutoff of the chart and for
  \<^verbatim>\<open>today\<close>; \<open>act\<close> and \<open>deact\<close> are the outcomes of the two requests. Whatever is raised
  is caught by \<^verbatim>\<open>except Exception\<close>, and the result is \<^verbatim>\<open>None\<close>.
\<close>

definition eaddress_body ::
  "pylib \<Rightarrow> exn + row list \<Rightarrow> exn + row list \<Rightarrow> datetime \<Rightarrow> datetime \<Rightarrow> exn + eaddress_data" where
  "eaddress_body lib act deact now_cutoff now_today =
     exn_bind (fetch_eaddress_resource lib act) (\<lambda>act_records.
     exn_bind (fetch_eaddress_resource lib deact) (\<lambda>deact_records.
     exn_bind (minus_days now_cutoff (3 * 365)) (\<lambda>cutoff.
     exn_bind (build_daily_rates act_records) (\<lambda>act_rates.
     exn_bind (build_deact_rates deact_records) (\<lambda>deact_rates.
     exn_bind (streak lib act_rates deact_rates now_today) (\<lambda>(s_fiz, s_jur).
     Inr \<lparr>records = filter (\<lambda>r. dt_ge (date r) cutoff) act_records,
          yesterday_fiziska = last s_fiz, yesterday_juridiska = last s_jur,
          streak_fiziska = s_fiz, streak_juridiska = s_jur\<rparr>))))))"

definition get_eaddress_data ::
  "pylib \<Rightarrow> exn + row list \<Rightarrow> exn + row list \<Rightarrow> datetime \<Rightarrow> datetime \<Rightarrow> eaddress_data option" where
  "get_eaddress_data lib act deact now_cutoff now_today =
     (case eaddress_body lib act deact now_cutoff now_today of
        Inl e \<Rightarrow> None
      | Inr data \<Rightarrow> Some data)"

text \<open>
  The streak entries of a result, and a library for the examples: every date is formatted
  alike and every string has the digest \<^verbatim>\<open>83d1a6e6d79e7dd362c9f48de70694e2\<close>.
\<close>

definition streaks_of :: "eaddress_data \<Rightarrow> streak_day list \<times> streak_day list \<times> streak_day \<times> streak_day" where
  "streaks_of data = (streak_fiziska data, streak_juridiska data, yesterday_fiziska data,
     yesterday_juridiska data)"

definition example_lib :: pylib where
  "example_lib = \<lparr>isoformat = (\<lambda>d. u ''2026-11-03T00:00:00''), strftime_a = (\<lambda>d. u ''Tue''),
     strftime_b_Y = (\<lambda>d. u ''Nov 2026''),
     md5 = (\<lambda>s. 0x83d1a6e6d79e7dd362c9f48de70694e2)\<rparr>"

section \<open>The hybrid summarizer\<close>

text \<open>
  \<^verbatim>\<open>
  def _extract_essence(cleaned_text, legal_act_text=""):
      if HAS_ANTHROPIC and len(cleaned_text) > 200:
          try:
              return _ai_extract_essence(cleaned_text, legal_act_text)
          except Exception as e:
              return _regex_extract_essence(cleaned_text)
      return _regex_extract_essence(cleaned_text)
  \<close>
  The flag \<^verbatim>\<open>HAS_ANTHROPIC\<close> is set once when the module is loaded. The generative path
  \<^verbatim>\<open>_ai_extract_essence\<close> calls a remote service and returns its text or raises; the
  fallback \<^verbatim>\<open>_regex_extract_essence\<close> is a function of the text alone, built from
  searches and substitutions of the \<^verbatim>\<open>re\<close> library. Both are taken as given here: what
  is modelled is which of them runs. The result records, besides the summary, the calls
  made to the generative path.
\<close>

record summarizer =
  HAS_ANTHROPIC :: bool
  ai_extract_essence :: "pystr \<Rightarrow> pystr \<Rightarrow> exn + pystr"
  regex_extract_essence :: "pystr \<Rightarrow> pystr"

record essence_result =
  summary :: pystr
  ai_attempts :: "(pystr \<times> pystr) list"

definition extract_essence :: "summarizer \<Rightarrow> pystr \<Rightarrow> pystr \<Rightarrow> essence_result" where
  "extract_essence sm cleaned_text legal_act_text =
     (if HAS_ANTHROPIC sm \<and> length cleaned_text > 200
      then (case ai_extract_essence sm cleaned_text legal_act_text of
              Inr text \<Rightarrow> \<lparr>summary = text, ai_attempts = [(cleaned_text, legal_act_text)]\<rparr>
            | Inl e \<Rightarrow> \<lparr>summary = regex_extract_essence sm cleaned_text,
                         ai_attempts = [(cleaned_text, legal_act_text)]\<rparr>)
      else \<lparr>summary = regex_extract_essence sm cleaned_text, ai_attempts = []\<rparr>)"

text \<open>
  A summarizer whose generative path is configured and answers, and a short annotation
  in which the fallback finds none of its section markers.
\<close>

definition example_summarizer :: summarizer where
  "example_summarizer = \<lparr>HAS_ANTHROPIC = True,
     ai_extract_essence = (\<lambda>a l. Inr (u ''1. Pamatojums: ...'')),
     regex_extract_essence = (\<lambda>t. [])\<rparr>"

definition short_text :: pystr where
  "short_text = u ''Anot'' @ [257] @ u ''cija''"

section \<open>Cabinet agenda: the whole extractor\<close>

text \<open>
  Step 1 searches the meetings index for the pattern
  \<^verbatim>\<open>data-url="(/meetings/cabinet_ministers/[0-9a-f]{8}-[0-9a-f]{4}-[0-9a-f]{4}-[0-9a-f]{4}-[0-9a-f]{12})"\<close>
  and takes the group of the leftmost match. The 36 characters of the identifier are five
  groups of 8, 4, 4, 4 and 12 lower-case hexadecimal digits separated by hyphens.
\<close>

definition BASE_URL :: pystr where
  "BASE_URL = u ''https://tapportals.mk.gov.lv''"

definition is_hex_lower :: "nat \<Rightarrow> bool" where
  "is_hex_lower c = ((48 \<le> c \<and> c \<le> 57) \<or> (97 \<le> c \<and> c \<le> 102))"

definition is_uuid :: "pystr \<Rightarrow> bool" where
  "is_uuid x =
     (let groups = split_on 45 x
      in map length groups = [8, 4, 4, 4, 12] \<and> list_all (list_all is_hex_lower) groups)"

definition match_meeting_path :: "pystr \<Rightarrow> pystr option" where
  "match_meeting_path s =
     (let attr = u ''data-url='' @ [34]; dir = u ''/meetings/cabinet_ministers/''
      in if startswith s (attr @ dir)
         then (let rest = drop (length (attr @ dir)) s
               in if is_uuid (take 36 rest) \<and> (case drop 36 rest of [] \<Rightarrow> False | c # _ \<Rightarrow> c = 34)
                  then Some (dir @ take 36 rest)
                  else None)
         else None)"

fun search_meeting_path :: "pystr \<Rightarrow> pystr option" where
  "search_meeting_path [] = None"
| "search_meeting_path (c # cs) =
     (case match_meeting_path (c # cs) of
        Some path \<Rightarrow> Some path
      | None \<Rightarrow> search_meeting_path cs)"

text \<open>
  Step 6 keeps the items whose reporter matches \<^verbatim>\<open>(?i)[cc]udars\<close>, the set holding \<open>c\<close>
  with and without caron. Without regard to case, \<open>s\<close> also matches the long s (383).
\<close>

fun match_cudars :: "pystr \<Rightarrow> bool" where
  "match_cudars (c # u1 # d # a # r # s # _) =
     ((c = 99 \<or> c = 67 \<or> c = 269 \<or> c = 268) \<and> (u1 = 117 \<or> u1 = 85) \<and> (d = 100 \<or> d = 68)
      \<and> (a = 97 \<or> a = 65) \<and> (r = 114 \<or> r = 82) \<and> (s = 115 \<or> s = 83 \<or> s = 383))"
| "match_cudars _ = False"

fun is_cudars :: "pystr \<Rightarrow> bool" where
  "is_cudars [] = False"
| "is_cudars (c # cs) = (match_cudars (c # cs) \<or> is_cudars cs)"

text \<open>
  The requests and the scans of a page with the \<^verbatim>\<open>re\<close> library are taken as given:
  \<open>http_get\<close> is \<^verbatim>\<open>requests.get(url, timeout=15).text\<close>, which returns the page or
  raises; \<open>meeting_date_of\<close> reads the date of the meeting's row (or \<^verbatim>\<open>Unknown date\<close>);
  \<open>extract_sections\<close> and \<open>extract_items\<close> are steps 3 and 4; the three links of an
  item's page are searched for by \<open>annotation_link\<close>, \<open>legal_act_link\<close> and
  \<open>protocol_link\<close>; \<open>clean_text\<close> strips scripts, styles, tags and entities and
  collapses white space, \<open>tags_to_lines\<close> does the same but puts a line break for
  every tag.
\<close>

record cabinet_env =
  http_get :: "pystr \<Rightarrow> exn + pystr"
  meeting_date_of :: "pystr \<Rightarrow> pystr \<Rightarrow> pystr"
  extract_sections :: "pystr \<Rightarrow> agenda_section list"
  extract_items :: "pystr \<Rightarrow> agenda_item list"
  annotation_link :: "pystr \<Rightarrow> pystr option"
  legal_act_link :: "pystr \<Rightarrow> pystr option"
  protocol_link :: "pystr \<Rightarrow> pystr option"
  clean_text :: "pystr \<Rightarrow> pystr"
  tags_to_lines :: "pystr \<Rightarrow> pystr"
  the_summarizer :: summarizer

text \<open>
  Step 7 for one item. The fields are emptied first; an exception raised by the request
  for the item's page, the annotation or the protocol decision ends the \<^verbatim>\<open>try\<close>, and the
  item keeps what it has by then; a failure to fetch the legal act draft is passed over.
\<close>

definition fetch_legal_act_text :: "cabinet_env \<Rightarrow> pystr \<Rightarrow> pystr" where
  "fetch_legal_act_text env la_html =
     (case legal_act_link env la_html of
        None \<Rightarrow> []
      | Some lm \<Rightarrow>
          (case http_get env (BASE_URL @ lm) of
             Inl e \<Rightarrow> []
           | Inr page \<Rightarrow> clean_text env page))"

definition fetch_essence :: "cabinet_env \<Rightarrow> pystr \<Rightarrow> agenda_item \<Rightarrow> exn + agenda_item" where
  "fetch_essence env la_html item =
     (case annotation_link env la_html of
        None \<Rightarrow> Inr item
      | Some am \<Rightarrow>
          exn_bind (http_get env (BASE_URL @ am)) (\<lambda>page.
          Inr (item\<lparr>essence := summary (extract_essence (the_summarizer env)
                 (clean_text env page) (fetch_legal_act_text env la_html))\<rparr>)))"

definition fetch_decision :: "cabinet_env \<Rightarrow> pystr \<Rightarrow> agenda_item \<Rightarrow> exn + agenda_item" where
  "fetch_decision env la_html item =
     (case protocol_link env la_html of
        None \<Rightarrow> Inr item
      | Some pm \<Rightarrow>
          exn_bind (http_get env (BASE_URL @ pm)) (\<lambda>page.
          Inr (item\<lparr>decision := extract_decision (nonempty_lines (tags_to_lines env page))\<rparr>)))"

definition enrich :: "cabinet_env \<Rightarrow> agenda_item \<Rightarrow> agenda_item" where
  "enrich env item0 =
     (let item = item0\<lparr>essence := [], decision := []\<rparr>
      in case http_get env (ta_link item) of
           Inl e \<Rightarrow> item
         | Inr la_html \<Rightarrow>
             (case fetch_essence env la_html item of
                Inl e \<Rightarrow> item
              | Inr item1 \<Rightarrow>
                  (case fetch_decision env la_html item1 of
                     Inl e \<Rightarrow> item1
                   | Inr item2 \<Rightarrow> item2)))"

text \<open>
  The function: \<^verbatim>\<open>None\<close> when the index cannot be fetched, when it has no meeting row, or
  when the agenda cannot be fetched (\<^verbatim>\<open>except Exception: return None\<close>); the result
  otherwise.
\<close>

record cabinet_result =
  meeting_date :: pystr
  meeting_url :: pystr
  cudars_items :: "agenda_item list"
  all_sections :: "pystr list"

definition index_url :: pystr where
  "index_url = BASE_URL @ u ''/meetings/cabinet_ministers''"

definition get_cabinet_cudars_items :: "cabinet_env \<Rightarrow> cabinet_result option" where
  "get_cabinet_cudars_items env =
     (case http_get env index_url of
        Inl e \<Rightarrow> None
      | Inr html \<Rightarrow>
          (case search_meeting_path html of
             None \<Rightarrow> None
           | Some meeting_path \<Rightarrow>
               (case http_get env (BASE_URL @ meeting_path) of
                  Inl e \<Rightarrow> None
                | Inr agenda_html \<Rightarrow>
                    (let sections = extract_sections env agenda_html;
                         items = assign_sections sections (extract_items env agenda_html);
                         cudars = filter (\<lambda>i. is_cudars (reporter i)) items
                     in Some \<lparr>meeting_date = meeting_date_of env html meeting_path,
                              meeting_url = BASE_URL @ meeting_path,
                              cudars_items = map (enrich env) cudars,
                              all_sections = map sec_name sections\<rparr>))))"

text \<open>
  Three environments for the examples: one whose every request fails; one whose index
  holds only the search form, which carries a \<^verbatim>\<open>data-url\<close> that is no meeting; and one
  whose index holds a meeting row and whose agenda has one section and one item, reported
  by R. Cudars.
\<close>

definition page_env :: "(pystr \<Rightarrow> exn + pystr) \<Rightarrow> cabinet_env" where
  "page_env get = \<lparr>http_get = get, meeting_date_of = (\<lambda>h p. u ''10.11.2026. 10:00''),
     extract_sections = (\<lambda>h. [mk_section ''A'' 0]),
     extract_items = (\<lambda>h. [(mk_item 50)\<lparr>reporter := u ''R. '' @ [268] @ u ''udars''\<rparr>]),
     annotation_link = (\<lambda>h. None), legal_act_link = (\<lambda>h. None), protocol_link = (\<lambda>h. None),
     clean_text = (\<lambda>h. h), tags_to_lines = (\<lambda>h. h), the_summarizer = example_summarizer\<rparr>"

definition env_offline :: cabinet_env where
  "env_offline = page_env (\<lambda>url. Inl NetworkError)"

definition search_form_html :: pystr where
  "search_form_html = u ''<form data-url='' @ [34] @ u ''/meetings/cabinet_ministers/search_form''
     @ [34] @ u ''>''"

definition env_no_meeting :: cabinet_env where
  "env_no_meeting = page_env (\<lambda>url. Inr search_form_html)"

definition meeting_html :: pystr where
  "meeting_html = search_form_html @ u ''<div data-url='' @ [34]
     @ u ''/meetings/cabinet_ministers/0123abcd-4567-89ab-cdef-0123456789ab'' @ [34] @ u ''>''"

definition env_meeting :: cabinet_env where
  "env_meeting = page_env (\<lambda>url. Inr meeting_html)"

section \<open>Properties of the section assignment\<close>

lemma scan_sections_find:
  "scan_sections secs p =
     (case find (\<lambda>s. sec_pos s < p) secs of None \<Rightarrow> u ''Unknown'' | Some s \<Rightarrow> sec_name s)"
  by (induction secs) simp_all

lemma scan_sections_none:
  "(\<forall>s \<in> set secs. \<not> sec_pos s < p) \<Longrightarrow> scan_sections secs p = u ''Unknown''"
  by (induction secs) simp_all

lemma scan_sections_first:
  "sec_pos s < p \<Longrightarrow> (\<forall>t \<in> set before. \<not> sec_pos t < p) \<Longrightarrow>
     scan_sections (before @ s # after) p = sec_name s"
  by (induction before) simp_all

lemma scan_sections_rev_nth:
  assumes "i < length sections" and "sec_pos (sections ! i) < p"
    and "\<forall>j. i < j \<and> j < length sections \<longrightarrow> \<not> sec_pos (sections ! j) < p"
  shows "scan_sections (rev sections) p = sec_name (sections ! i)"
proof -
  have split: "sections = take i sections @ sections ! i # drop (Suc i) sections"
    using assms(1) by (simp add: id_take_nth_drop)
  have later: "\<forall>t \<in> set (rev (drop (Suc i) sections)). \<not> sec_pos t < p"
  proof
    fix t assume "t \<in> set (rev (drop (Suc i) sections))"
    then obtain k where k: "k < length (drop (Suc i) sections)" "t = drop (Suc i) sections ! k"
      by (auto simp: in_set_conv_nth)
    then have "t = sections ! (Suc i + k)" and "Suc i + k < length sections"
      by simp_all
    with assms(3) show "\<not> sec_pos t < p" by simp
  qed
  have "rev sections =
      rev (drop (Suc i) sections) @ sections ! i # rev (take i sections)"
    by (subst split) simp
  then show ?thesis
    using scan_sections_first [OF assms(2) later] by simp
qed

text \<open>
  Claim C3, as the code has it. Every item receives the name of the last section of the
  page order whose offset is strictly less than the item's offset (the first such
  section of the reverse scan), and \<open>Unknown\<close> when no section's offset is strictly
  less. With sections A, B, C at offsets 0, 100, 250 the items at offsets 50, 150, 300
  receive A, B, C; the item at offset 10 receives A, since A's offset 0 is strictly less
  than 10; the item at offset 0, which no section precedes, receives \<open>Unknown\<close>.
\<close>

theorem assign_section_nearest_preceding:
  "((\<forall>s \<in> set sections. \<not> sec_pos s < pos item) \<longrightarrow>
      item_section (assign_section sections item) = u ''Unknown'')
   \<and> (i < length sections \<and> sec_pos (sections ! i) < pos item
        \<and> (\<forall>j. i < j \<and> j < length sections \<longrightarrow> \<not> sec_pos (sections ! j) < pos item) \<longrightarrow>
      item_section (assign_section sections item) = sec_name (sections ! i))
   \<and> map item_section (assign_sections example_sections [mk_item 50, mk_item 150, mk_item 300])
        = [u ''A'', u ''B'', u ''C'']
   \<and> item_section (assign_section example_sections (mk_item 10)) = u ''A''
   \<and> item_section (assign_section example_sections (mk_item 0)) = u ''Unknown''"
proof (intro conjI impI)
  assume "\<forall>s \<in> set sections. \<not> sec_pos s < pos item"
  then show "item_section (assign_section sections item) = u ''Unknown''"
    by (simp add: assign_section_def scan_sections_none)
next
  assume "i < length sections \<and> sec_pos (sections ! i) < pos item
    \<and> (\<forall>j. i < j \<and> j < length sections \<longrightarrow> \<not> sec_pos (sections ! j) < pos item)"
  then show "item_section (assign_section sections item) = sec_name (sections ! i)"
    by (simp add: assign_section_def scan_sections_rev_nth)
next
  show "map item_section (assign_sections example_sections [mk_item 50, mk_item 150, mk_item 300])
      = [u ''A'', u ''B'', u ''C'']"
    by (simp add: assign_sections_def assign_section_def example_sections_def mk_section_def
        mk_item_def)
next
  show "item_section (assign_section example_sections (mk_item 10)) = u ''A''"
    by (simp add: assign_section_def example_sections_def mk_section_def mk_item_def)
next
  show "item_section (assign_section example_sections (mk_item 0)) = u ''Unknown''"
    by (simp add: assign_section_def example_sections_def mk_section_def mk_item_def)
qed

text \<open>
  The theorem at the example: no section of the example precedes offset 0, and section B
  (index 1) is the last one that precedes offset 150.
\<close>

theorem assign_section_nearest_preceding_witness:
  "list_all (\<lambda>s. \<not> sec_pos s < pos (mk_item 0)) example_sections
   \<and> item_section (assign_section example_sections (mk_item 0)) = u ''Unknown''
   \<and> (1::nat) < length example_sections
   \<and> sec_pos (example_sections ! 1) < pos (mk_item 150)
   \<and> item_section (assign_section example_sections (mk_item 150)) = sec_name (example_sections ! 1)
   \<and> sec_name (example_sections ! 1) = u ''B''"
proof -
  have none: "\<forall>s \<in> set example_sections. \<not> sec_pos s < pos (mk_item 0)"
    by (simp add: example_sections_def mk_section_def mk_item_def)
  have i: "(1::nat) < length example_sections \<and> sec_pos (example_sections ! 1) < pos (mk_item 150)
      \<and> (\<forall>j. 1 < j \<and> j < length example_sections \<longrightarrow>
            \<not> sec_pos (example_sections ! j) < pos (mk_item 150))"
  proof (intro conjI allI impI)
    fix j assume "1 < j \<and> j < length example_sections"
    then have "j = 2" by (simp add: example_sections_def)
    then show "\<not> sec_pos (example_sections ! j) < pos (mk_item 150)"
      by (simp add: example_sections_def mk_section_def mk_item_def)
  qed (simp_all add: example_sections_def mk_section_def mk_item_def)
  have name: "sec_name (example_sections ! 1) = u ''B''"
    by (simp add: example_sections_def mk_section_def)
  from assign_section_nearest_preceding [of example_sections "mk_item 0" 1]
  have a: "item_section (assign_section example_sections (mk_item 0)) = u ''Unknown''"
    using none by blast
  from assign_section_nearest_preceding [of example_sections "mk_item 150" 1]
  have b: "item_section (assign_section example_sections (mk_item 150)) =
      sec_name (example_sections ! 1)"
    using i by blast
  from none have "list_all (\<lambda>s. \<not> sec_pos s < pos (mk_item 0)) example_sections"
    by (simp add: list_all_iff)
  then show ?thesis using i a b name by blast
qed

text \<open>
  The claim as stated fails at its own example: the item at offset 10 lies after
  section A (offset 0), so it is not assigned \<open>Unknown\<close>.
\<close>

theorem assign_section_offset_10_counterexample:
  "item_section (assign_section example_sections (mk_item 10)) \<noteq> u ''Unknown''"
  by (simp add: assign_section_def example_sections_def mk_section_def mk_item_def u_def)

section \<open>Properties of the decision extraction\<close>

lemmas decision_eval =
  extract_decision_def merge_lines_def merge_step_def is_ta_title_def is_ordinal_def
  is_ordinal_ws_def is_footer_def is_digit_def isspace_def py_strip_def u_def

lemma nonempty_lines_example: "nonempty_lines example_text = example_lines"
  by (simp add: nonempty_lines_def example_text_def example_lines_def py_strip_def isspace_def
      u_def)

lemma capture_lines_example:
  "capture_lines Off example_lines =
     [u ''1.'', u ''First clause.'', u ''2.'', u ''Second clause.'']"
  by (simp add: example_lines_def decision_eval)

lemma merge_lines_example:
  "merge_lines [u ''1.'', u ''First clause.'', u ''2.'', u ''Second clause.''] =
     [u ''1.First clause.'', u ''2. Second clause.'']"
  by (simp add: decision_eval)

lemma length_extract_decision: "length (extract_decision lines) \<le> 600"
  by (simp add: extract_decision_def Let_def)

text \<open>
  The first marker of a decision is appended while \<open>merged\<close> is still empty, so it gets
  no space; every later marker gets one.
\<close>

lemma merge_step_first: "merge_step [] dl = [dl]"
  by (simp add: merge_step_def)

lemma merge_step_marker:
  "merged \<noteq> [] \<Longrightarrow> is_ordinal dl \<Longrightarrow> merge_step merged dl = merged @ [dl @ u '' '']"
  by (simp add: merge_step_def)

text \<open>
  Claim C2, at the document of the specification. The lines captured are the four between
  the title and the copyright line, which is excluded. The decision extracted is
  \<^verbatim>\<open>1.First clause. 2. Second clause.\<close>: the first marker is joined to its clause with no
  space between them, so the result is not the \<^verbatim>\<open>1. First clause. 2. Second clause.\<close> of
  the claim.
\<close>

theorem extract_decision_example:
  "extract_decision example_lines = u ''1.First clause. 2. Second clause.''
   \<and> extract_decision example_lines \<noteq> u ''1. First clause. 2. Second clause.''"
proof -
  have "extract_decision example_lines =
      take 600 (py_strip (join (u '' '') [u ''1.First clause.'', u ''2. Second clause.'']))"
    by (simp add: extract_decision_def capture_lines_example merge_lines_example)
  also have "\<dots> = u ''1.First clause. 2. Second clause.''"
    by (simp add: py_strip_def isspace_def u_def)
  finally have eq: "extract_decision example_lines = u ''1.First clause. 2. Second clause.''" .
  moreover have "u ''1.First clause. 2. Second clause.'' \<noteq> u ''1. First clause. 2. Second clause.''"
    by (simp add: u_def)
  ultimately show ?thesis by simp
qed

section \<open>Properties of the classification of agenda points\<close>

text \<open>
  The outcome of a point depends on the keyword test and the number of topic hits alone:
  a point with two or more hits is a content match whether or not it names the ministry,
  a point with fewer hits is a keyword match when it names the ministry and is dropped
  otherwise.
\<close>

lemma classify_point_match_type:
  "map_option p_match_type (classify_point s point) =
     (if matches point \<ge> 2 then Some Content
      else if is_keyword point then Some Keyword
      else None)"
  by (simp add: classify_point_def is_digital_def)

lemma classify_point_one_topic:
  "\<not> is_keyword point \<Longrightarrow> matches point = 1 \<Longrightarrow> classify_point s point = None"
  by (simp add: classify_point_def is_digital_def)

lemma classify_point_content:
  "\<not> is_keyword point \<Longrightarrow> matches point \<ge> 2 \<Longrightarrow>
     map_option p_match_type (classify_point s point) = Some Content"
  by (simp add: classify_point_match_type)

lemma classify_point_keyword_few:
  "is_keyword point \<Longrightarrow> matches point < 2 \<Longrightarrow>
     map_option p_match_type (classify_point s point) = Some Keyword"
  by (simp add: classify_point_match_type)

text \<open>The tables as code points, the topics lower-cased as the loop does.\<close>

lemma VARAM_KEYWORDS_code:
  "VARAM_KEYWORDS =
     [[118, 105, 101, 100, 257, 115, 32, 97, 100, 109, 105, 110, 105, 115, 116, 114,
       257, 99, 105, 106, 97, 115, 32, 117, 110, 32, 114, 101, 291, 105, 111, 110, 257,
       108, 257, 115, 32, 97, 116, 116, 299, 115, 116, 299, 98, 97, 115, 32, 109, 105,
       110, 105, 115, 116, 114, 105, 106],
      [118, 97, 114, 97, 109]]"
  by (simp add: VARAM_KEYWORDS_def u_def)

lemma DIGITAL_TOPICS_lower:
  "map py_lower DIGITAL_TOPICS =
     [[100, 105, 103, 105, 116, 257, 108],
      [101, 45, 112, 257, 114, 118, 97, 108, 100],
      [101, 45, 112, 97, 107, 97, 108, 112, 111, 106, 117, 109],
      [100, 97, 116, 117, 32, 112, 257, 114, 118, 97, 108, 100, 299, 98],
      [105, 110, 102, 111, 114, 109, 257, 99, 105, 106, 97, 115, 32, 115, 105, 115,
       116, 275, 109],
      [105, 110, 102, 111, 114, 109, 257, 99, 105, 106, 97, 115, 32, 116, 101, 104,
       110, 111, 108, 111, 291, 105, 106],
      [107, 105, 98, 101, 114, 100, 114, 111, 353, 299, 98],
      [101, 108, 101, 107, 116, 114, 111, 110, 105, 115, 107],
      [97, 116, 118, 275, 114, 116],
      [100, 97, 116, 105],
      [100, 105, 103, 105, 116, 97, 108, 105, 122, 257, 99],
      [109, 257, 107, 115, 108, 299, 103],
      [105, 110, 116, 101, 108, 101, 107, 116],
      [112, 108, 97, 116, 102, 111, 114, 109, 97],
      [112, 111, 114, 116, 257, 108],
      [105, 107, 116],
      [105, 116, 32, 100, 114, 111, 353, 299, 98],
      [105, 110, 102, 111, 114, 109, 257, 99, 105, 106, 97, 115, 32, 115, 97, 98, 105,
       101, 100, 114, 299, 98],
      [116, 101, 104, 110, 111, 108, 111, 291, 105, 106, 117, 32, 97, 116, 116, 299,
       115, 116, 299, 98],
      [105, 110, 111, 118, 257, 99, 105],
      [101, 45, 105, 100, 101, 110, 116, 105, 116],
      [105, 110, 116, 101, 114, 111, 112, 101, 114, 97, 98, 105, 108, 105, 116],
      [114, 101, 291, 105, 115, 116, 114],
      [100, 97, 116, 117, 32, 97, 112, 115, 116, 114, 257, 100],
      [100, 97, 116, 117, 32, 97, 105, 122, 115, 97, 114, 100, 122, 299, 98],
      [112, 114, 105, 118, 257, 116, 117, 109]]"
  by (simp add: DIGITAL_TOPICS_def py_lower_def lower_cp_def u_def)

lemma matches_lower:
  "matches point =
     length (filter (\<lambda>t. py_in t (py_lower point)) (map py_lower DIGITAL_TOPICS))"
  by (simp add: matches_def filter_map o_def)

lemma py_lower_point_varam_digital:
  "py_lower point_varam_digital =
     [118, 97, 114, 97, 109, 32, 100, 105, 103, 105, 116, 257, 108, 257, 32, 112, 108,
     97, 116, 102, 111, 114, 109, 97]"
  by (simp add: point_varam_digital_def py_lower_def lower_cp_def u_def)

lemma py_lower_point_varam:
  "py_lower point_varam =
     [49, 46, 32, 118, 97, 114, 97, 109, 32, 122, 105, 326, 111, 106, 117, 109, 115]"
  by (simp add: point_varam_def py_lower_def lower_cp_def u_def)

lemma py_lower_point_two_topics:
  "py_lower point_two_topics =
     [50, 46, 32, 100, 105, 103, 105, 116, 257, 108, 257, 32, 112, 108, 97, 116, 102,
     111, 114, 109, 97]"
  by (simp add: point_two_topics_def py_lower_def lower_cp_def u_def)

lemma py_lower_point_one_topic:
  "py_lower point_one_topic =
     [51, 46, 32, 106, 97, 117, 110, 97, 32, 112, 108, 97, 116, 102, 111, 114, 109, 97]"
  by (simp add: point_one_topic_def py_lower_def lower_cp_def u_def)

lemma is_keyword_point_varam_digital: "is_keyword point_varam_digital"
  by (simp add: is_keyword_def VARAM_KEYWORDS_code py_lower_point_varam_digital)

lemma matches_point_varam_digital: "matches point_varam_digital = 2"
  by (simp add: matches_lower DIGITAL_TOPICS_lower py_lower_point_varam_digital)

lemma point_varam_keyword:
  "map_option p_match_type (classify_point example_sitting point_varam) = Some Keyword"
proof -
  have "is_keyword point_varam"
    by (simp add: is_keyword_def VARAM_KEYWORDS_code py_lower_point_varam)
  moreover have "matches point_varam = 0"
    by (simp add: matches_lower DIGITAL_TOPICS_lower py_lower_point_varam)
  ultimately show ?thesis by (simp add: classify_point_match_type)
qed

lemma point_two_topics_content:
  "map_option p_match_type (classify_point example_sitting point_two_topics) = Some Content"
proof -
  have "matches point_two_topics = 2"
    by (simp add: matches_lower DIGITAL_TOPICS_lower py_lower_point_two_topics)
  then show ?thesis by (simp add: classify_point_match_type)
qed

lemma point_one_topic_dropped: "classify_point example_sitting point_one_topic = None"
proof -
  have "\<not> is_keyword point_one_topic"
    by (simp add: is_keyword_def VARAM_KEYWORDS_code py_lower_point_one_topic)
  moreover have "matches point_one_topic = 1"
    by (simp add: matches_lower DIGITAL_TOPICS_lower py_lower_point_one_topic)
  ultimately show ?thesis by (rule classify_point_one_topic)
qed

text \<open>
  Claim C1, at a point that names the ministry's acronym and two topics
  (\<^verbatim>\<open>VARAM digitala platforma\<close>, with the Latvian long a): the keyword test holds, two topic
  stems occur, and the point is classified as a content match, not as the keyword match
  that the claim and the comment of the source (\<^verbatim>\<open>takes priority\<close>) give it.
\<close>

theorem classify_point_varam_digital:
  "is_keyword point_varam_digital \<and> matches point_varam_digital = 2
   \<and> map_option p_match_type (classify_point example_sitting point_varam_digital) = Some Content"
  by (simp add: classify_point_match_type is_keyword_point_varam_digital
      matches_point_varam_digital)

section \<open>Properties of the statistics parser\<close>

lemma exn_bind_Inr [simp]: "exn_bind (Inr x) f = f x"
  by (simp add: exn_bind_def)

lemma exn_bind_Inl [simp]: "exn_bind (Inl e) f = Inl e"
  by (simp add: exn_bind_def)

text \<open>
  A row whose parse raises \<^verbatim>\<open>ValueError\<close> or \<^verbatim>\<open>KeyError\<close> is skipped, and while no row
  raises anything else the result is the parsed rows in their order.
\<close>

lemma parse_rows_skip:
  "parse_row lib r = Inl ValueError \<or> parse_row lib r = Inl KeyError \<Longrightarrow>
     parse_rows lib (r # rs) = parse_rows lib rs"
  by auto

lemma parse_rows_map_filter:
  "\<forall>r \<in> set rows. \<forall>e. parse_row lib r = Inl e \<longrightarrow> e = ValueError \<or> e = KeyError \<Longrightarrow>
     parse_rows lib rows = Inr (List.map_filter (parsed lib) rows)"
proof (induction rows)
  case Nil
  show ?case by (simp add: List.map_filter_simps)
next
  case (Cons r rows)
  then have ih: "parse_rows lib rows = Inr (List.map_filter (parsed lib) rows)" by simp
  show ?case
  proof (cases "parse_row lib r")
    case (Inl e)
    with Cons.prems have e: "e = ValueError \<or> e = KeyError" by simp
    from Inl have "parsed lib r = None" by (simp add: parsed_def)
    with Inl e ih show ?thesis by (auto simp: List.map_filter_simps)
  next
    case (Inr parsed_r)
    then have "parsed lib r = Some parsed_r" by (simp add: parsed_def)
    with Inr ih show ?thesis by (simp add: List.map_filter_simps)
  qed
qed

lemma parse_row_missing_date: "r DATUMS = None \<Longrightarrow> parse_row lib r = Inl KeyError"
  by (simp add: parse_row_def)

lemma parse_row_bad_date:
  "r DATUMS = Some (JStr s) \<Longrightarrow> strptime_ymd (take 10 s) = None \<Longrightarrow>
     parse_row lib r = Inl ValueError"
  by (simp add: parse_row_def)

lemma parse_row_missing_counts:
  "r DATUMS = Some (JStr s) \<Longrightarrow> strptime_ymd (take 10 s) = Some d \<Longrightarrow>
   r FIZISKA_PERSONA = None \<Longrightarrow> r REGISTROS_REGISTRETS = None \<Longrightarrow>
     parse_row lib r = Inr \<lparr>date = d, fiziska = 0, juridiska = 0, label = strftime_b_Y lib d\<rparr>"
  by (simp add: parse_row_def py_int_def)

lemma parse_row_null_date: "r DATUMS = Some JNull \<Longrightarrow> parse_row lib r = Inl TypeError"
  by (simp add: parse_row_def)

lemma parse_rows_type_error:
  "parse_rows lib before = Inr recs \<Longrightarrow> parse_row lib r = Inl TypeError \<Longrightarrow>
     parse_rows lib (before @ r # after) = Inl TypeError"
proof (induction before arbitrary: recs)
  case Nil
  then show ?case by simp
next
  case (Cons b before)
  show ?case
  proof (cases "parse_row lib b")
    case (Inl e)
    with Cons.prems(1) have e: "e = ValueError \<or> e = KeyError"
      by (auto split: if_splits)
    with Inl Cons.prems have "parse_rows lib before = Inr recs" by auto
    from Cons.IH [OF this Cons.prems(2)] Inl e show ?thesis by auto
  next
    case (Inr parsed_b)
    with Cons.prems(1) obtain recs' where "parse_rows lib before = Inr recs'"
      by (cases "parse_rows lib before") auto
    from Cons.IH [OF this Cons.prems(2)] Inr show ?thesis by simp
  qed
qed

lemma names_distinct:
  "DATUMS \<noteq> FIZISKA_PERSONA" "DATUMS \<noteq> REGISTROS_REGISTRETS"
  "FIZISKA_PERSONA \<noteq> REGISTROS_REGISTRETS"
  by (simp_all add: DATUMS_def FIZISKA_PERSONA_def REGISTROS_REGISTRETS_def u_def)

lemma strptime_example: "strptime_ymd (u ''2024-01-01'') = Some \<lparr>ordinal = 738886, usec = 0\<rparr>"
  by (simp add: strptime_ymd_def parse_month_def parse_day_def is_digit_def digit_val_def
      days_in_month_def ymd2ord_def days_before_year_def days_before_month_def u_def upto.simps)

lemma parse_row_good:
  "parse_row lib row_good = Inr \<lparr>date = \<lparr>ordinal = 738886, usec = 0\<rparr>, fiziska = 100,
     juridiska = 50, label = strftime_b_Y lib \<lparr>ordinal = 738886, usec = 0\<rparr>\<rparr>"
proof -
  have "take 10 (u ''2024-01-01T00:00:00'') = u ''2024-01-01''"
    by (simp add: u_def)
  then show ?thesis
    using names_distinct
    by (simp add: parse_row_def row_good_def strptime_example py_int_def)
qed

text \<open>
  Claim C10, at an answer whose second row has a \<^verbatim>\<open>null\<close> date: slicing \<^verbatim>\<open>None\<close> raises
  \<^verbatim>\<open>TypeError\<close>, which the \<^verbatim>\<open>except (ValueError, KeyError)\<close> of the loop does not catch,
  so the whole fetch raises; the first row alone is parsed.
\<close>

theorem fetch_null_date_fails:
  "fetch_eaddress_resource lib (Inr [row_good, row_null_date]) = Inl TypeError
   \<and> fetch_eaddress_resource lib (Inr [row_good]) =
       Inr [\<lparr>date = \<lparr>ordinal = 738886, usec = 0\<rparr>, fiziska = 100, juridiska = 50,
              label = strftime_b_Y lib \<lparr>ordinal = 738886, usec = 0\<rparr>\<rparr>]"
proof -
  have "parse_row lib row_null_date = Inl TypeError"
    by (simp add: parse_row_null_date row_null_date_def)
  then show ?thesis
    by (simp add: fetch_eaddress_resource_def parse_row_good)
qed

section \<open>Properties of the daily rates\<close>


lemma py_round_of_int [simp]: "py_round (of_int n) = n"
  by (simp add: py_round_def)

lemma py_round_diff [simp]: "py_round (of_int a - of_int b) = a - b"
  using py_round_of_int [of "a - b"] by simp




lemma td_days_same [simp]: "td_days t t = 0"
  by (simp add: td_days_def)





section \<open>Properties of the rate lookup\<close>

lemma find_rate_scan_none:
  "\<forall>r \<in> set rates. \<not> dt_ge day (date r) \<Longrightarrow> find_rate_scan rates day base = base"
  by (induction rates) simp_all

lemma find_rate_scan_snoc:
  "find_rate_scan (rev (rates @ [r])) day base =
     (if dt_ge day (date r) then (fiziska r, juridiska r)
      else find_rate_scan (rev rates) day base)"
  by simp

lemma find_rate_scan_greatest:
  "sorted_by_date rates \<Longrightarrow> \<exists>r \<in> set rates. dt_ge day (date r) \<Longrightarrow>
     \<exists>r \<in> set rates. dt_ge day (date r)
       \<and> (\<forall>r' \<in> set rates. dt_ge day (date r') \<longrightarrow> dt_ge (date r) (date r'))
       \<and> find_rate_scan (rev rates) day base = (fiziska r, juridiska r)"
proof (induction rates rule: rev_induct)
  case Nil
  then show ?case by simp
next
  case (snoc x rates)
  from snoc.prems(1) have sorted_rates: "sorted_by_date rates"
    and le_x: "\<forall>r' \<in> set rates. to_usec (date r') \<le> to_usec (date x)"
    by (simp_all add: sorted_by_date_def sorted_append)
  show ?case
  proof (cases "dt_ge day (date x)")
    case True
    have "\<forall>r' \<in> set (rates @ [x]). dt_ge (date x) (date r')"
      using le_x by (auto simp: dt_ge_def)
    with True show ?thesis
      by (intro bexI [of _ x]) simp_all
  next
    case False
    with snoc.prems(2) have "\<exists>r \<in> set rates. dt_ge day (date r)" by auto
    from snoc.IH [OF sorted_rates this] obtain r where r: "r \<in> set rates" "dt_ge day (date r)"
      "\<forall>r' \<in> set rates. dt_ge day (date r') \<longrightarrow> dt_ge (date r) (date r')"
      "find_rate_scan (rev rates) day base = (fiziska r, juridiska r)"
      by blast
    with False show ?thesis
      by (intro bexI [of _ r]) auto
  qed
qed

text \<open>
  Claim C6. For an empty sequence the lookup returns \<open>(0, 0)\<close>; when no record's date is
  at or before the day it returns the values of the last record; and when the sequence is
  sorted ascending by date and some record's date is at or before the day, it returns the
  values of a record whose date is the greatest one at or before the day.
\<close>

theorem find_rate_greatest_at_or_before:
  "(find_rate [] day = (0, 0))
   \<and> (rates \<noteq> [] \<and> (\<forall>r \<in> set rates. \<not> dt_ge day (date r)) \<longrightarrow>
        find_rate rates day = (fiziska (last rates), juridiska (last rates)))
   \<and> (sorted_by_date rates \<and> (\<exists>r \<in> set rates. dt_ge day (date r)) \<longrightarrow>
        (\<exists>r \<in> set rates. dt_ge day (date r)
           \<and> (\<forall>r' \<in> set rates. dt_ge day (date r') \<longrightarrow> dt_ge (date r) (date r'))
           \<and> find_rate rates day = (fiziska r, juridiska r)))"
proof (intro conjI impI)
  show "find_rate [] day = (0, 0)"
    by (simp add: find_rate_def)
next
  assume "rates \<noteq> [] \<and> (\<forall>r \<in> set rates. \<not> dt_ge day (date r))"
  then show "find_rate rates day = (fiziska (last rates), juridiska (last rates))"
    by (simp add: find_rate_def find_rate_scan_none)
next
  assume "sorted_by_date rates \<and> (\<exists>r \<in> set rates. dt_ge day (date r))"
  then show "\<exists>r \<in> set rates. dt_ge day (date r)
      \<and> (\<forall>r' \<in> set rates. dt_ge day (date r') \<longrightarrow> dt_ge (date r) (date r'))
      \<and> find_rate rates day = (fiziska r, juridiska r)"
    unfolding find_rate_def by (intro find_rate_scan_greatest) simp_all
qed

text \<open>
  The theorem at three rates of days 10, 20 and 30: day 25 gets the rate of day 20, and
  day 5, which precedes them all, the rate of day 30, the last one.
\<close>

theorem find_rate_greatest_at_or_before_witness:
  "sorted_by_date example_rates
   \<and> list_ex (\<lambda>r. dt_ge \<lparr>ordinal = 25, usec = 0\<rparr> (date r)) example_rates
   \<and> find_rate example_rates \<lparr>ordinal = 25, usec = 0\<rparr> = (2, 12)
   \<and> example_rates \<noteq> []
   \<and> list_all (\<lambda>r. \<not> dt_ge \<lparr>ordinal = 5, usec = 0\<rparr> (date r)) example_rates
   \<and> find_rate example_rates \<lparr>ordinal = 5, usec = 0\<rparr> = (3, 13)"
proof -
  let ?d = "\<lparr>ordinal = 25, usec = 0\<rparr>" and ?e = "\<lparr>ordinal = 5, usec = 0\<rparr>"
  have ev: "set example_rates = {rate_on 10 1 11, rate_on 20 2 12, rate_on 30 3 13}"
    by (auto simp: example_rates_def)
  have ge: "dt_ge ?d (date (rate_on 10 1 11))" "dt_ge ?d (date (rate_on 20 2 12))"
    "\<not> dt_ge ?d (date (rate_on 30 3 13))" "\<not> dt_ge (date (rate_on 10 1 11)) (date (rate_on 20 2 12))"
    by (simp_all add: rate_on_def dt_ge_def to_usec_def day_usec_def)
  have sorted: "sorted_by_date example_rates"
    by (simp add: sorted_by_date_def example_rates_def rate_on_def to_usec_def day_usec_def)
  have some: "\<exists>r \<in> set example_rates. dt_ge ?d (date r)"
    using ge by (auto simp: ev)
  have none: "\<forall>r \<in> set example_rates. \<not> dt_ge ?e (date r)"
    by (simp add: ev rate_on_def dt_ge_def to_usec_def day_usec_def)
  have nonempty: "example_rates \<noteq> []"
    by (simp add: example_rates_def)
  note th = find_rate_greatest_at_or_before [of ?d example_rates]
  from th sorted some obtain r where r: "r \<in> set example_rates" "dt_ge ?d (date r)"
    "\<forall>r' \<in> set example_rates. dt_ge ?d (date r') \<longrightarrow> dt_ge (date r) (date r')"
    "find_rate example_rates ?d = (fiziska r, juridiska r)"
    by blast
  from r(1,2,3) ge have "r = rate_on 20 2 12"
    by (auto simp: ev)
  with r(4) have a: "find_rate example_rates ?d = (2, 12)"
    by (simp add: rate_on_def)
  from find_rate_greatest_at_or_before [of ?e example_rates] nonempty none
  have "find_rate example_rates ?e = (fiziska (last example_rates), juridiska (last example_rates))"
    by blast
  then have b: "find_rate example_rates ?e = (3, 13)"
    by (simp add: example_rates_def rate_on_def)
  from sorted some none nonempty a b show ?thesis
    by (simp add: list_ex_iff list_all_iff)
qed

section \<open>Properties of the daily variation\<close>

lemma hex_val_hex_char: "n < 16 \<Longrightarrow> hex_val (hex_char n) = Some (int n)"
  by (simp add: hex_val_def hex_char_def)

lemma int_base16_from_hex:
  "\<forall>n \<in> set ns. n < 16 \<Longrightarrow> 0 \<le> a \<Longrightarrow>
     \<exists>v. int_base16_from a (map hex_char ns) = Some v \<and> 0 \<le> v \<and> v < 16 ^ length ns * (a + 1)"
proof (induction ns arbitrary: a)
  case Nil
  then show ?case by simp
next
  case (Cons n ns)
  then have n: "n < 16" and a: "0 \<le> 16 * a + int n" by simp_all
  from Cons.IH [OF _ a] Cons.prems(1) obtain v
    where v: "int_base16_from (16 * a + int n) (map hex_char ns) = Some v" "0 \<le> v"
      "v < 16 ^ length ns * (16 * a + int n + 1)"
    by auto
  have "16 * a + int n + 1 \<le> 16 * (a + 1)" using n by simp
  then have "(16::int) ^ length ns * (16 * a + int n + 1) \<le> 16 ^ length ns * (16 * (a + 1))"
    by (intro mult_left_mono) simp_all
  with v(3) have "v < 16 ^ length ns * (16 * (a + 1))" by linarith
  then have "v < 16 ^ length (n # ns) * (a + 1)" by (simp add: algebra_simps)
  with v(1,2) show ?case
    by (simp add: hex_val_hex_char n)
qed

lemma take_8_hexdigest:
  "take 8 (hexdigest w) =
     map hex_char (map (\<lambda>i. unat (take_bit 4 (drop_bit (4 * (31 - i)) w))) [0 ..< 8])"
  by (simp add: hexdigest_def take_map)

lemma seed_prefix_value:
  "\<exists>n. int_base16 (take 8 (hexdigest w)) = Some n \<and> 0 \<le> n \<and> n \<le> 0xFFFFFFFF"
proof -
  let ?ns = "map (\<lambda>i. unat (take_bit 4 (drop_bit (4 * (31 - i)) w))) [0 ..< 8]"
  have "\<forall>n \<in> set ?ns. n < 16"
  proof
    fix n assume "n \<in> set ?ns"
    then obtain i where "n = unat (take_bit 4 (drop_bit (4 * (31 - i)) w))" by auto
    then have "n = take_bit 4 (unat (drop_bit (4 * (31 - i)) w))"
      by (simp add: unsigned_take_bit_eq)
    moreover have "take_bit 4 (unat (drop_bit (4 * (31 - i)) w)) < 2 ^ 4"
      by (rule take_bit_nat_less_exp)
    ultimately show "n < 16" by simp
  qed
  from int_base16_from_hex [OF this, of 0] obtain v
    where "int_base16_from 0 (map hex_char ?ns) = Some v" "0 \<le> v" "v < 16 ^ length ?ns * 1"
    by auto
  moreover have "map hex_char ?ns \<noteq> []" by simp
  ultimately show ?thesis
    by (simp add: take_8_hexdigest int_base16_def del: map_map upt_rec_numeral)
qed

text \<open>
  The fraction of a seed is defined and lies between 0 and 1, both included: it is 1
  when the first eight digits of the seed are \<^verbatim>\<open>ffffffff\<close>, since the divisor is
  \<^verbatim>\<open>0xFFFFFFFF\<close>. The offset then lies between -1/5 and 1/5, and the varied rate, the
  rounded product floored at zero, is never negative.
\<close>

lemma frac_seed:
  "\<exists>q. frac (seed lib day category) = Inr q \<and> 0 \<le> q \<and> q \<le> 1"
proof -
  obtain n where n: "int_base16 (take 8 (seed lib day category)) = Some n" "0 \<le> n"
    "n \<le> 0xFFFFFFFF"
    using seed_prefix_value unfolding seed_def by blast
  then have "frac (seed lib day category) = Inr (of_int n / 0xFFFFFFFF)"
    by (simp add: frac_def truediv_def)
  moreover have "0 \<le> (of_int n :: rat) / 0xFFFFFFFF" using n(2) by simp
  moreover have "(of_int n :: rat) / 0xFFFFFFFF \<le> 1"
  proof -
    have "(of_int n :: rat) \<le> of_int 0xFFFFFFFF" using n(3) by (simp only: of_int_le_iff)
    then show ?thesis by simp
  qed
  ultimately show ?thesis by blast
qed

lemma frac_all_f: "frac (u ''ffffffff'' @ rest) = Inr 1"
  by (simp add: frac_def int_base16_def hex_val_def truediv_def u_def)

lemma offset_bounds: "0 \<le> q \<Longrightarrow> q \<le> 1 \<Longrightarrow> - (1 / 5) \<le> offset q \<and> offset q \<le> 1 / 5"
  by (simp add: offset_def field_simps)

lemma vary_total:
  "\<exists>fr. frac (seed lib day category) = Inr fr
     \<and> vary lib avg day category = Inr (max 0 (py_round (of_int avg * (1 + offset fr))))
     \<and> 0 \<le> max 0 (py_round (of_int avg * (1 + offset fr)))"
  using frac_seed [of lib day category] by (auto simp: vary_def)

lemma vary_zero: "vary lib 0 day category = Inr 0"
  using vary_total [of lib day category 0] by (auto simp: py_round_def)

section \<open>Determinism of the streak\<close>

lemma midnight_same_day:
  fixes now1 now2 :: datetime
  shows "ordinal now1 = ordinal now2 \<Longrightarrow> midnight now1 = midnight now2"
  by (cases now1, cases now2) (simp add: midnight_def)

lemma vary_iso:
  "isoformat lib day1 = isoformat lib day2 \<Longrightarrow>
     vary lib avg day1 category = vary lib avg day2 category"
  by (simp add: vary_def seed_def)

lemma map_sum_exn_bind:
  "map_sum id g (exn_bind m f) = exn_bind m (\<lambda>x. map_sum id g (f x))"
  by (cases m) simp_all

lemma streaks_of_body:
  "3 * 365 < ordinal now_cutoff \<Longrightarrow>
     map_sum id streaks_of (eaddress_body lib act deact now_cutoff now_today) =
       exn_bind (fetch_eaddress_resource lib act) (\<lambda>act_records.
       exn_bind (fetch_eaddress_resource lib deact) (\<lambda>deact_records.
       exn_bind (build_daily_rates act_records) (\<lambda>act_rates.
       exn_bind (build_deact_rates deact_records) (\<lambda>deact_rates.
       exn_bind (streak lib act_rates deact_rates now_today) (\<lambda>(s_fiz, s_jur).
       Inr (s_fiz, s_jur, last s_fiz, last s_jur))))))"
  by (simp add: eaddress_body_def minus_days_def map_sum_exn_bind streaks_of_def
      case_prod_unfold)

text \<open>
  Claim C4. The streak is a function of the rates and of the calendar day of the clock
  reading alone: two runs on the same day, at whatever time of the day, give the same
  streak for the same rates; the variation of a rate depends on the day only through its
  ISO string, so the same ISO date and category give the same varied value for the same
  base rate; and two whole runs on the same answers of the statistics portal and the same
  day return the same streak entries (the clock reading for the chart's cutoff being any
  date after the first three years of the calendar, before which the cutoff does not exist).
\<close>

theorem streak_deterministic:
  fixes now1 now2 :: datetime
  shows
  "(ordinal now1 = ordinal now2 \<longrightarrow>
      streak lib act_rates deact_rates now1 = streak lib act_rates deact_rates now2)
   \<and> (isoformat lib day1 = isoformat lib day2 \<longrightarrow>
        vary lib avg day1 category = vary lib avg day2 category)
   \<and> (ordinal now1 = ordinal now2 \<and> 3 * 365 < ordinal cutoff1 \<and> 3 * 365 < ordinal cutoff2 \<longrightarrow>
        map_sum id streaks_of (eaddress_body lib act deact cutoff1 now1) =
        map_sum id streaks_of (eaddress_body lib act deact cutoff2 now2))"
proof (intro conjI impI)
  assume "ordinal now1 = ordinal now2"
  then have "midnight now1 = midnight now2"
    by (rule midnight_same_day)
  then show "streak lib act_rates deact_rates now1 = streak lib act_rates deact_rates now2"
    by (simp add: streak_def)
next
  assume "isoformat lib day1 = isoformat lib day2"
  then show "vary lib avg day1 category = vary lib avg day2 category"
    by (rule vary_iso)
next
  assume a: "ordinal now1 = ordinal now2 \<and> 3 * 365 < ordinal cutoff1 \<and> 3 * 365 < ordinal cutoff2"
  then have "midnight now1 = midnight now2"
    by (intro midnight_same_day) simp
  then have same: "\<And>a d. streak lib a d now1 = streak lib a d now2"
    by (simp add: streak_def)
  from a have c: "3 * 365 < ordinal cutoff1" "3 * 365 < ordinal cutoff2"
    by simp_all
  show "map_sum id streaks_of (eaddress_body lib act deact cutoff1 now1) =
      map_sum id streaks_of (eaddress_body lib act deact cutoff2 now2)"
    unfolding streaks_of_body [OF c(1)] streaks_of_body [OF c(2)] same ..
qed

text \<open>
  The theorem at two clock readings of day 739924 (4 November 2026), 5 and 7
  microseconds after midnight, and at two days with the same ISO string in the library
  of the examples.
\<close>

theorem streak_deterministic_witness:
  "ordinal \<lparr>ordinal = 739924, usec = 5\<rparr> = ordinal \<lparr>ordinal = 739924, usec = 7\<rparr>
   \<and> streak example_lib example_rates example_rates \<lparr>ordinal = 739924, usec = 5\<rparr>
       = streak example_lib example_rates example_rates \<lparr>ordinal = 739924, usec = 7\<rparr>
   \<and> isoformat example_lib \<lparr>ordinal = 739923, usec = 0\<rparr>
       = isoformat example_lib \<lparr>ordinal = 739922, usec = 0\<rparr>
   \<and> vary example_lib 100 \<lparr>ordinal = 739923, usec = 0\<rparr> (u ''fiz'')
       = vary example_lib 100 \<lparr>ordinal = 739922, usec = 0\<rparr> (u ''fiz'')
   \<and> (3 * 365 :: int) < ordinal \<lparr>ordinal = 739924, usec = 1\<rparr>
   \<and> map_sum id streaks_of (eaddress_body example_lib (Inr [row_good]) (Inr [row_good])
         \<lparr>ordinal = 739924, usec = 1\<rparr> \<lparr>ordinal = 739924, usec = 5\<rparr>)
       = map_sum id streaks_of (eaddress_body example_lib (Inr [row_good]) (Inr [row_good])
         \<lparr>ordinal = 739924, usec = 1\<rparr> \<lparr>ordinal = 739924, usec = 7\<rparr>)"
proof -
  have iso: "isoformat example_lib \<lparr>ordinal = 739923, usec = 0\<rparr>
      = isoformat example_lib \<lparr>ordinal = 739922, usec = 0\<rparr>"
    by (simp add: example_lib_def)
  note th = streak_deterministic [of "\<lparr>ordinal = 739924, usec = 5\<rparr>"
      "\<lparr>ordinal = 739924, usec = 7\<rparr>" example_lib example_rates example_rates
      "\<lparr>ordinal = 739923, usec = 0\<rparr>" "\<lparr>ordinal = 739922, usec = 0\<rparr>" 100 "u ''fiz''"
      "\<lparr>ordinal = 739924, usec = 1\<rparr>" "\<lparr>ordinal = 739924, usec = 1\<rparr>"
      "Inr [row_good]" "Inr [row_good]"]
  from th iso show ?thesis by simp
qed

section \<open>Properties of the hybrid summarizer\<close>

lemma extract_essence_long:
  "HAS_ANTHROPIC sm \<Longrightarrow> length cleaned_text > 200 \<Longrightarrow>
     ai_attempts (extract_essence sm cleaned_text legal_act_text) =
       [(cleaned_text, legal_act_text)]"
  by (simp add: extract_essence_def split: sum.split)

lemma extract_essence_unavailable:
  "\<not> HAS_ANTHROPIC sm \<Longrightarrow>
     extract_essence sm cleaned_text legal_act_text =
       \<lparr>summary = regex_extract_essence sm cleaned_text, ai_attempts = []\<rparr>"
  by (simp add: extract_essence_def)

text \<open>
  Claim C7. For an annotation shorter than 200 characters the summarizer makes no call
  to the generative path and returns the result of the pattern-based fallback, whether or
  not the generative path is configured and whatever it would answer.
\<close>

theorem short_text_never_generative:
  "length cleaned_text < 200 \<longrightarrow>
     extract_essence sm cleaned_text legal_act_text =
       \<lparr>summary = regex_extract_essence sm cleaned_text, ai_attempts = []\<rparr>"
  by (simp add: extract_essence_def)

text \<open>
  The theorem at an annotation of nine characters and a summarizer whose generative path
  is configured and would answer.
\<close>

theorem short_text_never_generative_witness:
  "length short_text < 200 \<and> HAS_ANTHROPIC example_summarizer
   \<and> ai_extract_essence example_summarizer short_text [] = Inr (u ''1. Pamatojums: ...'')
   \<and> extract_essence example_summarizer short_text [] = \<lparr>summary = [], ai_attempts = []\<rparr>"
proof -
  have short: "length short_text < 200"
    by (simp add: short_text_def u_def)
  from short_text_never_generative [of short_text example_summarizer "[]"] short
  have "extract_essence example_summarizer short_text [] =
      \<lparr>summary = regex_extract_essence example_summarizer short_text, ai_attempts = []\<rparr>"
    by blast
  with short show ?thesis
    by (simp add: example_summarizer_def)
qed

section \<open>Properties of the cabinet extractor\<close>

lemma search_meeting_path_None:
  "search_meeting_path html = None \<longleftrightarrow> (\<forall>n. match_meeting_path (drop n html) = None)"
proof (induction html)
  case Nil
  show ?case by (simp add: match_meeting_path_def u_def)
next
  case (Cons c cs)
  show ?case
  proof
    assume none: "search_meeting_path (c # cs) = None"
    then have here: "match_meeting_path (c # cs) = None"
      and later: "\<forall>n. match_meeting_path (drop n cs) = None"
      using Cons.IH by (auto split: option.splits)
    show "\<forall>n. match_meeting_path (drop n (c # cs)) = None"
    proof
      fix n show "match_meeting_path (drop n (c # cs)) = None"
        using here later by (cases n) simp_all
    qed
  next
    assume all: "\<forall>n. match_meeting_path (drop n (c # cs)) = None"
    then have "match_meeting_path (drop 0 (c # cs)) = None" by blast
    moreover have "\<forall>n. match_meeting_path (drop n cs) = None"
    proof
      fix n from all have "match_meeting_path (drop (Suc n) (c # cs)) = None" by blast
      then show "match_meeting_path (drop n cs) = None" by simp
    qed
    ultimately show "search_meeting_path (c # cs) = None"
      using Cons.IH by simp
  qed
qed

lemma search_form_no_meeting: "search_meeting_path search_form_html = None"
  by (simp add: search_form_html_def match_meeting_path_def is_uuid_def is_hex_lower_def u_def)

lemma meeting_html_found:
  "search_meeting_path meeting_html =
     Some (u ''/meetings/cabinet_ministers/0123abcd-4567-89ab-cdef-0123456789ab'')"
  by (simp add: meeting_html_def search_form_html_def match_meeting_path_def is_uuid_def
      is_hex_lower_def u_def)

lemma get_cabinet_found:
  "http_get env index_url = Inr html \<Longrightarrow> search_meeting_path html = Some path \<Longrightarrow>
   http_get env (BASE_URL @ path) = Inr agenda_html \<Longrightarrow>
     \<exists>result. get_cabinet_cudars_items env = Some result
       \<and> meeting_url result = BASE_URL @ path
       \<and> all_sections result = map sec_name (extract_sections env agenda_html)"
  by (simp add: get_cabinet_cudars_items_def Let_def)

text \<open>
  Claim C8. When the request for the meetings index raises, and when the index holds no
  \<^verbatim>\<open>data-url\<close> with a meeting's path, the extractor returns \<^verbatim>\<open>None\<close>: the result is either
  \<^verbatim>\<open>None\<close> or a whole structure, and in these two cases it is \<^verbatim>\<open>None\<close>.
\<close>

theorem cabinet_none_without_meeting:
  "(http_get env index_url = Inl e \<longrightarrow> get_cabinet_cudars_items env = None)
   \<and> (http_get env index_url = Inr html \<and> search_meeting_path html = None \<longrightarrow>
        get_cabinet_cudars_items env = None)"
  by (simp add: get_cabinet_cudars_items_def)

text \<open>
  The theorem at an environment whose requests fail and at one whose index holds only
  the search form.
\<close>

theorem cabinet_none_without_meeting_witness:
  "http_get env_offline index_url = Inl NetworkError
   \<and> get_cabinet_cudars_items env_offline = None
   \<and> http_get env_no_meeting index_url = Inr search_form_html
   \<and> search_meeting_path search_form_html = None
   \<and> get_cabinet_cudars_items env_no_meeting = None"
proof -
  have a: "http_get env_offline index_url = Inl NetworkError"
    by (simp add: env_offline_def page_env_def)
  have b: "http_get env_no_meeting index_url = Inr search_form_html"
    by (simp add: env_no_meeting_def page_env_def)
  from cabinet_none_without_meeting [of env_offline NetworkError] a
  have "get_cabinet_cudars_items env_offline = None"
    by blast
  moreover from cabinet_none_without_meeting [of env_no_meeting _ search_form_html] b
    search_form_no_meeting
  have "get_cabinet_cudars_items env_no_meeting = None"
    by blast
  ultimately show ?thesis
    using a b search_form_no_meeting by simp
qed

end
